theory Spec2Isabelle
  imports Complex_Main
begin

section \<open>Dispatch layer of the pore size distribution calculations\<close>

text \<open>
  The development embeds \<^verbatim>\<open>src/pygaps/calculations/psd.py\<close>: the three entry
  functions \<^verbatim>\<open>mesopore_size_distribution\<close>, \<^verbatim>\<open>micropore_size_distribution\<close> and
  \<^verbatim>\<open>dft_size_distribution\<close>. They validate their arguments, look adsorbate properties
  up, read the isotherm's branch arrays and hand them to a numerical engine.

  The engines, the isotherm class, the adsorbate class, the plot function and two of the
  name registries live in other modules. They are parameters of the model: what such a
  callee returns (or that it raises) is a field of a record, and every call of one is
  written to a trace, in program order, with the arguments it received. Numbers are only
  passed along by this layer, never computed with; they are reals here.
\<close>

subsection \<open>Python values\<close>

text \<open>A keyword argument or configuration entry is either \<^verbatim>\<open>None\<close> or a string.\<close>

datatype pyval = PyNone | PyStr string

text \<open>An array-valued accessor gives an array, or \<^verbatim>\<open>None\<close> when the branch is missing
  (the source tests \<^verbatim>\<open>loading is None\<close>).\<close>

type_synonym pyarray = "real list option"

text \<open>\<^verbatim>\<open>"{}".format(v)\<close> for such a value.\<close>

fun py_str :: "pyval \<Rightarrow> string" where
  "py_str PyNone = ''None''"
| "py_str (PyStr s) = s"

text \<open>
  \<^verbatim>\<open>repr\<close> of a string, a character of the model being the code point of the same
  number. The string is put in single quotes, or in double quotes when it holds a
  single quote and no double quote. Inside, a backslash and the chosen quote get a
  backslash in front; tab, newline and carriage return are written \<^verbatim>\<open>\t\<close>, \<^verbatim>\<open>\n\<close>,
  \<^verbatim>\<open>\r\<close>; every other character that is not printable (below 32, from 127 to 160, and
  173) is written \<^verbatim>\<open>\x\<close> and two lower-case hexadecimal digits; all others stand for
  themselves.
\<close>

definition py_hex_digit :: "nat \<Rightarrow> char" where
  "py_hex_digit n = ''0123456789abcdef'' ! (n mod 16)"

definition py_repr_char :: "char \<Rightarrow> char \<Rightarrow> string" where
  "py_repr_char quote c =
     (let n = (of_char c :: nat) in
      if c = quote \<or> c = CHR 0x5C then [CHR 0x5C, c]
      else if c = CHR 0x09 then [CHR 0x5C, CHR ''t'']
      else if c = CHR 0x0A then [CHR 0x5C, CHR ''n'']
      else if c = CHR 0x0D then [CHR 0x5C, CHR ''r'']
      else if n < 32 \<or> (127 \<le> n \<and> n \<le> 160) \<or> n = 173
        then [CHR 0x5C, CHR ''x'', py_hex_digit (n div 16), py_hex_digit n]
      else [c])"

definition py_repr :: "string \<Rightarrow> string" where
  "py_repr s =
     (let quote = (if CHR 0x27 \<in> set s \<and> CHR 0x22 \<notin> set s then CHR 0x22 else CHR 0x27)
      in [quote] @ concat (map (py_repr_char quote) s) @ [quote])"

text \<open>\<^verbatim>\<open>"{}".format\<close> of a list of strings.\<close>

fun py_join :: "string list \<Rightarrow> string" where
  "py_join [] = []"
| "py_join [s] = s"
| "py_join (s # t # ss) = s @ '', '' @ py_join (t # ss)"

definition py_str_list :: "string list \<Rightarrow> string" where
  "py_str_list xs = ''['' @ py_join (map py_repr xs) @ '']''"

text \<open>\<^verbatim>\<open>v in names\<close> for a list of strings: \<^verbatim>\<open>None\<close> is in no such list.\<close>

fun py_in :: "pyval \<Rightarrow> string list \<Rightarrow> bool" where
  "py_in PyNone names = False"
| "py_in (PyStr s) names = (s \<in> set names)"

text \<open>\<^verbatim>\<open>d.get(key)\<close>: \<^verbatim>\<open>None\<close> for an absent key, the stored value (which may itself be
  \<^verbatim>\<open>None\<close>) otherwise.\<close>

definition py_get :: "(string \<rightharpoonup> pyval) \<Rightarrow> string \<Rightarrow> pyval" where
  "py_get d key = (case d key of None \<Rightarrow> PyNone | Some v \<Rightarrow> v)"

subsection \<open>Exceptions\<close>

text \<open>
  \<open>Exception args\<close> is \<^verbatim>\<open>raise Exception(*args)\<close>, the only exception the module raises
  itself. \<open>TypeError\<close> and \<open>UnboundLocalError\<close> are raised by the interpreter:
  subscripting \<^verbatim>\<open>None\<close>, and reading a local variable that no branch has assigned (the
  argument is the variable). \<open>Propagated\<close> is an exception that left a callee.
\<close>

datatype error =
    Exception "string list"
  | TypeError string
  | UnboundLocalError string
  | Propagated string

subsection \<open>Registries of the module\<close>

definition MESO_PSD_MODELS :: "string list" where
  "MESO_PSD_MODELS = [''BJH'', ''DH'', ''HK'']"

definition MICRO_PSD_MODELS :: "string list" where
  "MICRO_PSD_MODELS = [''HK'']"

definition PORE_GEOMETRIES :: "string list" where
  "PORE_GEOMETRIES = [''slit'', ''cylinder'', ''sphere'']"

subsection \<open>Objects of the other modules\<close>

text \<open>The two thickness functions and the two adsorbent property tables are used by name
  only.\<close>

datatype thickness_fn = thickness_halsey | thickness_harkins_jura

datatype adsorbent_props = PROPERTIES_CARBON | PROPERTIES_OXIDE_ION

text \<open>\<^verbatim>\<open>partial(kelvin_radius_std, meniscus_geometry=..., ...)\<close>: the keyword arguments
  that are fixed.\<close>

record kelvin_partial =
  kw_meniscus_geometry :: string
  kw_temperature :: real
  kw_liquid_density :: real
  kw_adsorbate_molar_mass :: real
  kw_adsorbate_surface_tension :: real

text \<open>The \<^verbatim>\<open>dict(...)\<close> of adsorbate properties built for the Horvath-Kawazoe engine.\<close>

record adsorbate_properties =
  molecular_diameter :: real
  polarizability :: real
  magnetic_susceptibility :: real
  surface_density :: real

text \<open>An adsorbate object: what each of its methods does when called (\<open>Inl\<close>: it
  raises).\<close>

record adsorbate =
  molar_mass :: "string + real"
  liquid_density :: "real \<Rightarrow> string + real"
  surface_tension :: "real \<Rightarrow> string + real"
  get_prop :: "string \<Rightarrow> string + real"

text \<open>An isotherm object: its attributes, and what its accessors do when called. The
  argument of \<open>loading_ads\<close> and \<open>loading_des\<close> is the keyword \<^verbatim>\<open>unit\<close>.\<close>

record isotherm =
  mode_adsorbent :: string
  mode_pressure :: string
  gas :: string
  t_exp :: real
  loading_ads :: "string \<Rightarrow> string + pyarray"
  pressure_ads :: "string + pyarray"
  loading_des :: "string \<Rightarrow> string + pyarray"
  pressure_des :: "string + pyarray"
  loading_at :: "real \<Rightarrow> string + real"

text \<open>What the module imports: two registries, the adsorbate lookup, the meniscus
  selection, the four engines and the plot function. \<open>psd_plot\<close> takes the keyword
  arguments \<^verbatim>\<open>log\<close> and \<^verbatim>\<open>xmax\<close>, \<open>None\<close> when the caller leaves one out.

  Arrays are objects that a callee can change in place. The entry functions hand
  \<open>psd_plot\<close> the two array objects that the result dictionary holds, so what the plot
  function does to them shows in the dictionary that is returned. A normal outcome of
  \<open>psd_plot\<close> is therefore the contents of its two array arguments when it returns: the
  arguments themselves when it leaves them alone.\<close>

record collaborators =
  THICKNESS_MODELS :: "string list"
  ADSORBENT_MODELS :: "string list"
  Adsorbate_from_list :: "string \<Rightarrow> string + adsorbate"
  meniscus_geometry :: "pyval \<Rightarrow> pyval \<Rightarrow> string + string"
  psd_bjh :: "pyarray \<Rightarrow> pyarray \<Rightarrow> pyval \<Rightarrow> thickness_fn \<Rightarrow> kelvin_partial
                \<Rightarrow> real \<Rightarrow> real \<Rightarrow> string + (real list \<times> real list)"
  psd_dollimore_heal :: "pyarray \<Rightarrow> pyarray \<Rightarrow> pyval \<Rightarrow> thickness_fn \<Rightarrow> kelvin_partial
                \<Rightarrow> real \<Rightarrow> real \<Rightarrow> string + (real list \<times> real list)"
  psd_horvath_kawazoe :: "pyarray \<Rightarrow> pyarray \<Rightarrow> real \<Rightarrow> pyval \<Rightarrow> real
                \<Rightarrow> adsorbate_properties \<Rightarrow> adsorbent_props
                \<Rightarrow> string + (real list \<times> real list)"
  psd_dft_kernel_fit :: "pyarray \<Rightarrow> pyarray \<Rightarrow> string \<Rightarrow> string + (real list \<times> real list)"
  psd_plot :: "real list \<Rightarrow> real list \<Rightarrow> bool option \<Rightarrow> real option
                \<Rightarrow> string + (real list \<times> real list)"

subsection \<open>Traces\<close>

text \<open>One event for each call that leaves the module, with the arguments of the call.\<close>

datatype event =
    Call_from_list string
  | Call_molar_mass
  | Call_liquid_density real
  | Call_surface_tension real
  | Call_get_prop string
  | Call_loading_ads string
  | Call_pressure_ads
  | Call_loading_des string
  | Call_pressure_des
  | Call_loading_at real
  | Call_meniscus_geometry pyval pyval
  | Call_psd_bjh pyarray pyarray pyval thickness_fn kelvin_partial real real
  | Call_psd_dollimore_heal pyarray pyarray pyval thickness_fn kelvin_partial real real
  | Call_psd_horvath_kawazoe pyarray pyarray real pyval real adsorbate_properties
      adsorbent_props
  | Call_psd_dft_kernel_fit pyarray pyarray string
  | Call_psd_plot "real list" "real list" "bool option" "real option"

text \<open>A run of a piece of code: the calls it made, and how it ended.\<close>

type_synonym 'a run = "event list \<times> (error + 'a)"

definition ret :: "'a \<Rightarrow> 'a run" where
  "ret x = ([], Inr x)"

definition raise :: "error \<Rightarrow> 'a run" where
  "raise e = ([], Inl e)"

text \<open>Calling a callee: the call is recorded; its exception, if any, propagates.\<close>

definition call :: "event \<Rightarrow> string + 'a \<Rightarrow> 'a run" where
  "call ev outcome =
     ([ev], case outcome of Inl msg \<Rightarrow> Inl (Propagated msg) | Inr x \<Rightarrow> Inr x)"

text \<open>Sequencing: the rest of the code runs only when the first part ended normally.\<close>

definition seq :: "'a run \<Rightarrow> ('a \<Rightarrow> 'b run) \<Rightarrow> 'b run" where
  "seq m f =
     (case m of
        (tr, Inl e) \<Rightarrow> (tr, Inl e)
      | (tr, Inr x) \<Rightarrow> (case f x of (tr', r) \<Rightarrow> (tr @ tr', r)))"

text \<open>Events that are calls of a numerical engine.\<close>

fun is_engine_call :: "event \<Rightarrow> bool" where
  "is_engine_call (Call_psd_bjh l p g t k d m) = True"
| "is_engine_call (Call_psd_dollimore_heal l p g t k d m) = True"
| "is_engine_call (Call_psd_horvath_kawazoe l p T g m a b) = True"
| "is_engine_call (Call_psd_dft_kernel_fit p l k) = True"
| "is_engine_call ev = False"


text \<open>Events that are calls of an accessor of the isotherm.\<close>

fun is_isotherm_read :: "event \<Rightarrow> bool" where
  "is_isotherm_read (Call_loading_ads unit) = True"
| "is_isotherm_read Call_pressure_ads = True"
| "is_isotherm_read (Call_loading_des unit) = True"
| "is_isotherm_read Call_pressure_des = True"
| "is_isotherm_read (Call_loading_at p) = True"
| "is_isotherm_read ev = False"

subsection \<open>Messages of the exceptions raised by the module\<close>

definition err_not_mass :: error where
  "err_not_mass = Exception
     [''The isotherm must be in per mass of adsorbent.First convert it using implicit functions'']"

definition err_not_relative :: error where
  "err_not_relative = Exception
     [''The isotherm must be in relative pressure mode.First convert it using implicit functions'']"

definition err_no_model :: error where
  \<open>err_no_model = Exception
     [''Specify a model to generate the pore size distribution e.g. psd_model="BJH"'']\<close>

definition err_psd_model :: "pyval \<Rightarrow> string list \<Rightarrow> error" where
  "err_psd_model psd_model registry = Exception
     [''Model '' @ py_str psd_model @ '' not an option for psd.'',
      ''Available models are '' @ py_str_list registry]"

definition err_geometry :: "pyval \<Rightarrow> error" where
  "err_geometry pore_geometry = Exception
     [''Geometry '' @ py_str pore_geometry @ '' not an option for pore size distribution.'',
      ''Available geometries are '' @ py_str_list PORE_GEOMETRIES]"

definition err_no_branch :: error where
  "err_no_branch = Exception
     [''Specify the isotherm part to select for the calculation'' @
      [CHR 0x27] @ ''branch'= either 'adsorption' or 'desorption'' @ [CHR 0x27]]"

definition err_branch :: "pyval \<Rightarrow> error" where
  "err_branch branch = Exception
     [''Branch '' @ py_str branch @ '' not an option for psd.'',
      ''Select either 'adsorption' or 'desorption'' @ [CHR 0x27]]"

definition err_sub_model :: "pyval \<Rightarrow> string list \<Rightarrow> error" where
  "err_sub_model model registry = Exception
     [''Model '' @ py_str model @ '' not an option for pore size distribution.'',
      ''Available models are '' @ py_str_list registry]"

definition err_branch_data :: error where
  "err_branch_data = Exception
     [''The isotherm does not have the required branch for this calculation'']"

definition err_subscript_None :: error where
  "err_subscript_None = TypeError ([CHR 0x27] @ ''NoneType' object is not subscriptable'')"

subsection \<open>Pieces of the entry functions\<close>

text \<open>The checks both classical entry functions start with (lines 95 to 110 and 232 to
  247); \<open>registry\<close> is the list of model names of the calling function. No callee is
  called here.\<close>

definition common_parameter_checks ::
  "isotherm \<Rightarrow> pyval \<Rightarrow> string list \<Rightarrow> pyval \<Rightarrow> error option" where
  "common_parameter_checks isotherm psd_model registry pore_geometry =
     (if mode_adsorbent isotherm \<noteq> ''mass'' then Some err_not_mass
      else if mode_pressure isotherm \<noteq> ''relative'' then Some err_not_relative
      else if psd_model = PyNone then Some err_no_model
      else if \<not> py_in psd_model registry then Some (err_psd_model psd_model registry)
      else if \<not> py_in pore_geometry PORE_GEOMETRIES then Some (err_geometry pore_geometry)
      else None)"

text \<open>Lines 112 to 118: the branch entry of the configuration.\<close>

definition branch_checks :: "(string \<rightharpoonup> pyval) \<Rightarrow> error + pyval" where
  "branch_checks model_parameters =
     (let branch = py_get model_parameters ''branch'' in
      if branch = PyNone then Inl err_no_branch
      else if \<not> py_in branch [''adsorption'', ''desorption''] then Inl (err_branch branch)
      else Inr branch)"

text \<open>Lines 120 to 126 and 249 to 255: a sub-model is taken from the configuration when
  its key is there, is the default otherwise, and must be in the registry.\<close>

definition sub_model_checks ::
  "(string \<rightharpoonup> pyval) \<Rightarrow> string \<Rightarrow> string \<Rightarrow> string list \<Rightarrow> error + pyval" where
  "sub_model_checks model_parameters key default_name registry =
     (let model = (if key \<in> dom model_parameters then py_get model_parameters key
                   else PyStr default_name) in
      if \<not> py_in model registry then Inl (err_sub_model model registry)
      else Inr model)"

text \<open>\<^verbatim>\<open>a[::-1]\<close>: the reversed array; subscripting \<^verbatim>\<open>None\<close> raises.\<close>

definition py_reversed :: "pyarray \<Rightarrow> real list run" where
  "py_reversed a = (case a of None \<Rightarrow> raise err_subscript_None | Some xs \<Rightarrow> ret (rev xs))"

text \<open>Lines 135 to 144: the arrays of the requested branch. When \<open>branch\<close> is neither
  name, no branch of the \<^verbatim>\<open>if\<close> assigns \<^verbatim>\<open>loading\<close>, and the test of line 142 reads an
  unassigned variable.\<close>

definition meso_read_data :: "isotherm \<Rightarrow> pyval \<Rightarrow> (pyarray \<times> pyarray) run" where
  "meso_read_data isotherm branch =
     seq (if branch = PyStr ''adsorption'' then
            seq (call (Call_loading_ads ''mmol'') (loading_ads isotherm ''mmol'')) (\<lambda>la.
            seq (py_reversed la) (\<lambda>loading.
            seq (call Call_pressure_ads (pressure_ads isotherm)) (\<lambda>pa.
            seq (py_reversed pa) (\<lambda>pressure.
            ret (Some loading, Some pressure)))))
          else if branch = PyStr ''desorption'' then
            seq (call (Call_loading_des ''mmol'') (loading_des isotherm ''mmol'')) (\<lambda>loading.
            seq (call Call_pressure_des (pressure_des isotherm)) (\<lambda>pressure.
            ret (loading, pressure)))
          else raise (UnboundLocalError ''loading''))
       (\<lambda>(loading, pressure).
          if loading = None then raise err_branch_data else ret (loading, pressure))"

text \<open>Lines 147 to 150: the thickness function, \<open>None\<close> when neither branch assigns
  \<^verbatim>\<open>t_model\<close>.\<close>

definition select_t_model :: "pyval \<Rightarrow> thickness_fn option" where
  "select_t_model thickness_model =
     (if thickness_model = PyStr ''Halsey'' then Some thickness_halsey
      else if thickness_model = PyStr ''Harkins/Jura'' then Some thickness_harkins_jura
      else None)"

text \<open>Lines 272 to 275: the adsorbent property table, \<open>None\<close> when neither branch assigns
  \<^verbatim>\<open>adsorbent_properties\<close>.\<close>

definition select_adsorbent_properties :: "pyval \<Rightarrow> adsorbent_props option" where
  "select_adsorbent_properties adsorbent_model =
     (if adsorbent_model = PyStr ''Carbon(HK)'' then Some PROPERTIES_CARBON
      else if adsorbent_model = PyStr ''OxideIon(SF)'' then Some PROPERTIES_OXIDE_ION
      else None)"

text \<open>Reading a local variable: \<open>None\<close> is a variable that was never assigned.\<close>

definition local_var :: "string \<Rightarrow> 'a option \<Rightarrow> 'a run" where
  "local_var name v = (case v of None \<Rightarrow> raise (UnboundLocalError name) | Some x \<Rightarrow> ret x)"

text \<open>Lines 162 to 171: the engine of the model name. No branch of the \<^verbatim>\<open>if\<close> is taken
  for a name other than BJH and DH; \<^verbatim>\<open>pore_widths\<close> and \<^verbatim>\<open>pore_dist\<close> then stay
  unassigned (\<open>None\<close>).\<close>

definition meso_call_engine ::
  "collaborators \<Rightarrow> pyval \<Rightarrow> pyarray \<Rightarrow> pyarray \<Rightarrow> pyval \<Rightarrow> thickness_fn option
     \<Rightarrow> kelvin_partial \<Rightarrow> real \<Rightarrow> real \<Rightarrow> (real list \<times> real list) option run" where
  "meso_call_engine imp psd_model loading pressure pore_geometry t_model k_model
       liquid_density' molar_mass' =
     (if psd_model = PyStr ''BJH'' then
        seq (local_var ''t_model'' t_model) (\<lambda>t.
        seq (call (Call_psd_bjh loading pressure pore_geometry t k_model
                     liquid_density' molar_mass')
               (psd_bjh imp loading pressure pore_geometry t k_model
                     liquid_density' molar_mass')) (\<lambda>r.
        ret (Some r)))
      else if psd_model = PyStr ''DH'' then
        seq (local_var ''t_model'' t_model) (\<lambda>t.
        seq (call (Call_psd_dollimore_heal loading pressure pore_geometry t k_model
                     liquid_density' molar_mass')
               (psd_dollimore_heal imp loading pressure pore_geometry t k_model
                     liquid_density' molar_mass')) (\<lambda>r.
        ret (Some r)))
      else ret None)"

text \<open>The result dictionary of lines 173 to 176 holds the two array objects, not
  copies of them: what a caller reads from it is the contents of the two arrays at
  that moment.\<close>

definition result_dict_of :: "real list \<times> real list \<Rightarrow> (string \<rightharpoonup> real list)" where
  "result_dict_of arrays =
     [''pore_widths'' \<mapsto> fst arrays, ''pore_distribution'' \<mapsto> snd arrays]"

text \<open>Lines 173 to 181, 283 to 291 and 318 to 326: the result dictionary is built from
  the two local variables (reading \<^verbatim>\<open>pore_widths\<close> first), the plot function is called
  with the same two arrays when \<^verbatim>\<open>verbose\<close> holds, and the dictionary is returned, with
  the arrays as they are then.\<close>

definition result_and_plot ::
  "collaborators \<Rightarrow> (real list \<times> real list) option \<Rightarrow> bool \<Rightarrow> bool option \<Rightarrow> real option
     \<Rightarrow> (string \<rightharpoonup> real list) run" where
  "result_and_plot imp assigned verbose lg xmax =
     seq (local_var ''pore_widths'' assigned) (\<lambda>(pore_widths, pore_dist).
     seq (if verbose
          then call (Call_psd_plot pore_widths pore_dist lg xmax)
                 (psd_plot imp pore_widths pore_dist lg xmax)
          else ret (pore_widths, pore_dist)) (\<lambda>arrays.
     ret (result_dict_of arrays)))"

subsection \<open>The three entry functions\<close>

definition mesopore_size_distribution ::
  "collaborators \<Rightarrow> isotherm \<Rightarrow> pyval \<Rightarrow> pyval \<Rightarrow> bool \<Rightarrow> (string \<rightharpoonup> pyval)
     \<Rightarrow> (string \<rightharpoonup> real list) run" where
  "mesopore_size_distribution imp isotherm psd_model pore_geometry verbose model_parameters =
     (case common_parameter_checks isotherm psd_model MESO_PSD_MODELS pore_geometry of
        Some e \<Rightarrow> raise e
      | None \<Rightarrow>
     (case branch_checks model_parameters of
        Inl e \<Rightarrow> raise e
      | Inr branch \<Rightarrow>
     (case sub_model_checks model_parameters ''thickness_model'' ''Harkins/Jura''
             (THICKNESS_MODELS imp) of
        Inl e \<Rightarrow> raise e
      | Inr thickness_model \<Rightarrow>
     seq (call (Call_from_list (gas isotherm)) (Adsorbate_from_list imp (gas isotherm)))
       (\<lambda>adsorbate.
     seq (call Call_molar_mass (molar_mass adsorbate)) (\<lambda>molar_mass'.
     seq (call (Call_liquid_density (t_exp isotherm))
            (liquid_density adsorbate (t_exp isotherm))) (\<lambda>liquid_density'.
     seq (call (Call_surface_tension (t_exp isotherm))
            (surface_tension adsorbate (t_exp isotherm))) (\<lambda>surface_tension'.
     seq (meso_read_data isotherm branch) (\<lambda>(loading, pressure).
     let t_model = select_t_model thickness_model in
     seq (call (Call_meniscus_geometry branch pore_geometry)
            (meniscus_geometry imp branch pore_geometry)) (\<lambda>m_geometry.
     let k_model = \<lparr>kw_meniscus_geometry = m_geometry,
                    kw_temperature = t_exp isotherm,
                    kw_liquid_density = liquid_density',
                    kw_adsorbate_molar_mass = molar_mass',
                    kw_adsorbate_surface_tension = surface_tension'\<rparr> in
     seq (meso_call_engine imp psd_model loading pressure pore_geometry t_model k_model
            liquid_density' molar_mass') (\<lambda>assigned.
     result_and_plot imp assigned verbose None None))))))))))"

text \<open>Lines 278 to 281: the only micropore engine.\<close>

definition micro_call_engine ::
  "collaborators \<Rightarrow> pyval \<Rightarrow> pyarray \<Rightarrow> pyarray \<Rightarrow> real \<Rightarrow> pyval \<Rightarrow> real
     \<Rightarrow> adsorbate_properties \<Rightarrow> adsorbent_props option
     \<Rightarrow> (real list \<times> real list) option run" where
  "micro_call_engine imp psd_model loading pressure temperature pore_geometry
       maximum_adsorbed adsorbate_props adsorbent =
     (if psd_model = PyStr ''HK'' then
        seq (local_var ''adsorbent_properties'' adsorbent) (\<lambda>adsorbent_props'.
        seq (call (Call_psd_horvath_kawazoe loading pressure temperature pore_geometry
                     maximum_adsorbed adsorbate_props adsorbent_props')
               (psd_horvath_kawazoe imp loading pressure temperature pore_geometry
                     maximum_adsorbed adsorbate_props adsorbent_props')) (\<lambda>r.
        ret (Some r)))
      else ret None)"

definition micropore_size_distribution ::
  "collaborators \<Rightarrow> isotherm \<Rightarrow> pyval \<Rightarrow> pyval \<Rightarrow> bool \<Rightarrow> (string \<rightharpoonup> pyval)
     \<Rightarrow> (string \<rightharpoonup> real list) run" where
  "micropore_size_distribution imp isotherm psd_model pore_geometry verbose model_parameters =
     (case common_parameter_checks isotherm psd_model MICRO_PSD_MODELS pore_geometry of
        Some e \<Rightarrow> raise e
      | None \<Rightarrow>
     (case sub_model_checks model_parameters ''adsorbent_model'' ''Carbon(HK)''
             (ADSORBENT_MODELS imp) of
        Inl e \<Rightarrow> raise e
      | Inr adsorbent_model \<Rightarrow>
     seq (call (Call_from_list (gas isotherm)) (Adsorbate_from_list imp (gas isotherm)))
       (\<lambda>adsorbate.
     seq (call (Call_get_prop ''molecular_diameter'')
            (get_prop adsorbate ''molecular_diameter'')) (\<lambda>d.
     seq (call (Call_get_prop ''polarizability'')
            (get_prop adsorbate ''polarizability'')) (\<lambda>p.
     seq (call (Call_get_prop ''magnetic_susceptibility'')
            (get_prop adsorbate ''magnetic_susceptibility'')) (\<lambda>m.
     seq (call (Call_get_prop ''surface_density'')
            (get_prop adsorbate ''surface_density'')) (\<lambda>s.
     let adsorbate_props = \<lparr>molecular_diameter = d, polarizability = p,
                            magnetic_susceptibility = m, surface_density = s\<rparr> in
     seq (call (Call_loading_ads ''mmol'') (loading_ads isotherm ''mmol'')) (\<lambda>loading.
     seq (call Call_pressure_ads (pressure_ads isotherm)) (\<lambda>pressure.
     seq (call (Call_loading_at (9 / 10)) (loading_at isotherm (9 / 10)))
       (\<lambda>maximum_adsorbed.
     let adsorbent = select_adsorbent_properties adsorbent_model in
     seq (micro_call_engine imp psd_model loading pressure (t_exp isotherm) pore_geometry
            maximum_adsorbed adsorbate_props adsorbent) (\<lambda>assigned.
     result_and_plot imp assigned verbose (Some False) (Some 2))))))))))))"

definition dft_size_distribution ::
  "collaborators \<Rightarrow> isotherm \<Rightarrow> string \<Rightarrow> bool \<Rightarrow> (string \<rightharpoonup> pyval)
     \<Rightarrow> (string \<rightharpoonup> real list) run" where
  "dft_size_distribution imp isotherm kernel_path verbose model_parameters =
     seq (call (Call_loading_ads ''mmol'') (loading_ads isotherm ''mmol'')) (\<lambda>loading.
     seq (call Call_pressure_ads (pressure_ads isotherm)) (\<lambda>pressure.
     seq (call (Call_psd_dft_kernel_fit pressure loading kernel_path)
            (psd_dft_kernel_fit imp pressure loading kernel_path)) (\<lambda>r.
     result_and_plot imp (Some r) verbose None None)))"

subsection \<open>Reading a trace\<close>

text \<open>The loading and pressure arrays, and the thickness function, that the calls of the
  mesopore engines in a trace received.\<close>

fun meso_engine_arrays :: "event list \<Rightarrow> (pyarray \<times> pyarray) list" where
  "meso_engine_arrays [] = []"
| "meso_engine_arrays (Call_psd_bjh l p g t k d m # evs) = (l, p) # meso_engine_arrays evs"
| "meso_engine_arrays (Call_psd_dollimore_heal l p g t k d m # evs) =
     (l, p) # meso_engine_arrays evs"
| "meso_engine_arrays (ev # evs) = meso_engine_arrays evs"

fun meso_engine_thickness :: "event list \<Rightarrow> thickness_fn list" where
  "meso_engine_thickness [] = []"
| "meso_engine_thickness (Call_psd_bjh l p g t k d m # evs) = t # meso_engine_thickness evs"
| "meso_engine_thickness (Call_psd_dollimore_heal l p g t k d m # evs) =
     t # meso_engine_thickness evs"
| "meso_engine_thickness (ev # evs) = meso_engine_thickness evs"





subsection \<open>Example objects\<close>

text \<open>Concrete callees, on which the theorems below are instantiated: an adsorbate with
  every property, engines that return two arrays of equal length (and raise on a missing
  array), a plot function that returns and leaves its arguments alone, and the
  registries \<open>Halsey\<close>, \<open>Harkins/Jura\<close> and \<open>Carbon(HK)\<close>, \<open>OxideIon(SF)\<close>.\<close>

definition nitrogen :: adsorbate where
  "nitrogen = \<lparr>molar_mass = Inr 28, liquid_density = (\<lambda>T. Inr (4 / 5)),
     surface_tension = (\<lambda>T. Inr 9), get_prop = (\<lambda>name. Inr 1)\<rparr>"

definition stub_engine :: "pyarray \<Rightarrow> pyarray \<Rightarrow> string + (real list \<times> real list)" where
  "stub_engine loading pressure =
     (case (loading, pressure) of
        (Some l, Some p) \<Rightarrow> Inr (p, l)
      | _ \<Rightarrow> Inl ''engine: array expected'')"

definition lab :: collaborators where
  "lab = \<lparr>THICKNESS_MODELS = [''Halsey'', ''Harkins/Jura''],
     ADSORBENT_MODELS = [''Carbon(HK)'', ''OxideIon(SF)''],
     Adsorbate_from_list = (\<lambda>name. if name = ''N2'' then Inr nitrogen
                                     else Inl ''adsorbate not in list''),
     meniscus_geometry = (\<lambda>branch geometry. Inr ''hemispherical''),
     psd_bjh = (\<lambda>l p g t k d m. stub_engine l p),
     psd_dollimore_heal = (\<lambda>l p g t k d m. stub_engine l p),
     psd_horvath_kawazoe = (\<lambda>l p T g m a b. stub_engine l p),
     psd_dft_kernel_fit = (\<lambda>p l k. stub_engine l p),
     psd_plot = (\<lambda>w d lg xmax. Inr (w, d))\<rparr>"

text \<open>The same callees, but with a plot function that raises (no display to draw on),
  and with one that puts the widths it is handed in ascending order, in place, before
  drawing them.\<close>

definition lab_plot_raises :: collaborators where
  "lab_plot_raises = lab\<lparr>psd_plot := (\<lambda>w d lg xmax. Inl ''no display'')\<rparr>"

definition lab_plot_sorts :: collaborators where
  "lab_plot_sorts = lab\<lparr>psd_plot := (\<lambda>w d lg xmax. Inr (sort w, d))\<rparr>"

text \<open>An isotherm with both branches, in the modes the classical methods ask for; the
  same without data; and the same in other modes.\<close>

definition iso_full :: isotherm where
  "iso_full = \<lparr>mode_adsorbent = ''mass'', mode_pressure = ''relative'', gas = ''N2'',
     t_exp = 77,
     loading_ads = (\<lambda>unit. Inr (Some [1, 2, 3, 4, 5, 6])),
     pressure_ads = Inr (Some [1 / 10, 3 / 10, 5 / 10, 7 / 10, 9 / 10, 99 / 100]),
     loading_des = (\<lambda>unit. Inr (Some [6, 4, 2])),
     pressure_des = Inr (Some [9 / 10, 5 / 10, 1 / 10]),
     loading_at = (\<lambda>p. Inr 5)\<rparr>"

definition iso_empty :: isotherm where
  "iso_empty = iso_full\<lparr>loading_ads := (\<lambda>unit. Inr None), pressure_ads := Inr None,
     loading_des := (\<lambda>unit. Inr None), pressure_des := Inr None\<rparr>"

definition iso_volume :: isotherm where
  "iso_volume = iso_full\<lparr>mode_adsorbent := ''volume'', mode_pressure := ''absolute''\<rparr>"

section \<open>Properties of the entry functions\<close>

lemmas run_defs = ret_def raise_def call_def seq_def local_var_def

lemmas piece_defs = common_parameter_checks_def branch_checks_def sub_model_checks_def
  py_reversed_def meso_read_data_def select_t_model_def select_adsorbent_properties_def
  meso_call_engine_def micro_call_engine_def result_and_plot_def result_dict_of_def
  py_get_def

lemmas error_defs = err_not_mass_def err_not_relative_def err_no_model_def err_psd_model_def
  err_geometry_def err_no_branch_def err_branch_def err_sub_model_def err_branch_data_def
  err_subscript_None_def

lemmas example_defs = lab_def lab_plot_raises_def lab_plot_sorts_def iso_full_def
  iso_empty_def iso_volume_def nitrogen_def stub_engine_def

lemmas registry_defs = MESO_PSD_MODELS_def MICRO_PSD_MODELS_def PORE_GEOMETRIES_def

lemmas repr_defs = py_str_list_def py_repr_def py_repr_char_def py_hex_digit_def Let_def

subsection \<open>Formatting of names\<close>

text \<open>\<^verbatim>\<open>repr\<close> on the names of the module's registries, on a name with an apostrophe,
  and on a name with both quotes, a backslash and characters that are not printable.\<close>

lemma py_str_list_registries:
  "py_str_list MESO_PSD_MODELS = ''['BJH', 'DH', 'HK']''"
  "py_str_list MICRO_PSD_MODELS = ''['HK']''"
  "py_str_list PORE_GEOMETRIES = ''['slit', 'cylinder', 'sphere']''"
  by (simp_all add: registry_defs repr_defs)

lemma py_repr_apostrophe:
  "py_repr ''it's'' = [CHR 0x22] @ ''it's'' @ [CHR 0x22]"
  by (simp add: repr_defs)

lemma py_repr_escapes:
  "py_repr [CHR 0x27, CHR 0x22, CHR 0x5C, CHR 0x0A, CHR 0x7F, CHR 0xA0, CHR 0xA1, CHR 0xAD,
            CHR 0x0B]
     = [CHR 0x27, CHR 0x5C, CHR 0x27, CHR 0x22, CHR 0x5C, CHR 0x5C, CHR 0x5C, CHR ''n'',
        CHR 0x5C, CHR ''x'', CHR ''7'', CHR ''f'', CHR 0x5C, CHR ''x'', CHR ''a'', CHR ''0'',
        CHR 0xA1, CHR 0x5C, CHR ''x'', CHR ''a'', CHR ''d'', CHR 0x5C, CHR ''x'', CHR ''0'',
        CHR ''b'', CHR 0x27]"
  by (simp add: repr_defs)

subsection \<open>Runs\<close>

lemma fst_seq:
  "fst (seq m f) = fst m @ (case snd m of Inl e \<Rightarrow> [] | Inr x \<Rightarrow> fst (f x))"
  by (cases m) (simp add: seq_def split: sum.splits prod.splits)

lemma snd_seq:
  "snd (seq m f) = (case snd m of Inl e \<Rightarrow> Inl e | Inr x \<Rightarrow> snd (f x))"
  by (cases m) (simp add: seq_def split: sum.splits prod.splits)

lemma seq_Inl:
  "snd (seq m f) = Inl e \<Longrightarrow> snd m = Inl e \<or> (\<exists>x. snd (f x) = Inl e)"
  by (auto simp: snd_seq split: sum.splits)

lemma call_Exception: "snd (call ev outcome) = Inl (Exception args) \<Longrightarrow> False"
  by (cases outcome) (simp_all add: call_def)

lemma local_var_Exception: "snd (local_var name v) = Inl (Exception args) \<Longrightarrow> False"
  by (cases v) (simp_all add: local_var_def raise_def ret_def)

lemma meso_engine_arrays_append:
  "meso_engine_arrays (xs @ ys) = meso_engine_arrays xs @ meso_engine_arrays ys"
  by (induction xs rule: meso_engine_arrays.induct) simp_all

lemma meso_engine_thickness_append:
  "meso_engine_thickness (xs @ ys) = meso_engine_thickness xs @ meso_engine_thickness ys"
  by (induction xs rule: meso_engine_thickness.induct) simp_all

subsection \<open>The checks\<close>

lemma py_in_not_None: "py_in v names \<Longrightarrow> v \<noteq> PyNone"
  by (cases v) simp_all

lemma py_in_micro: "py_in model MICRO_PSD_MODELS \<longleftrightarrow> model = PyStr ''HK''"
  by (cases model) (simp_all add: MICRO_PSD_MODELS_def)

lemma common_checks_pass:
  assumes "mode_adsorbent isotherm = ''mass''" and "mode_pressure isotherm = ''relative''"
    and "py_in model registry" and "py_in geometry PORE_GEOMETRIES"
  shows "common_parameter_checks isotherm model registry geometry = None"
  using assms py_in_not_None [of model registry]
  by (simp add: common_parameter_checks_def)

lemma branch_checks_pass:
  assumes "params ''branch'' = Some b" and "py_in b [''adsorption'', ''desorption'']"
  shows "branch_checks params = Inr b"
  using assms py_in_not_None [of b "[''adsorption'', ''desorption'']"]
  by (simp add: branch_checks_def py_get_def)

lemma sub_model_default:
  assumes "key \<notin> dom params"
  shows "sub_model_checks (params(key \<mapsto> PyStr name)) key name registry
       = sub_model_checks params key name registry"
  using assms by (simp add: sub_model_checks_def py_get_def)

lemma branch_checks_other_key:
  assumes "key \<noteq> ''branch''"
  shows "branch_checks (params(key := x)) = branch_checks params"
  using assms by (simp add: branch_checks_def py_get_def)

lemma sub_model_checks_other_key:
  assumes "key' \<noteq> key"
  shows "sub_model_checks (params(key' := x)) key name registry
       = sub_model_checks params key name registry"
  using assms by (auto simp add: sub_model_checks_def py_get_def dom_def)

lemma common_checks_not_branch_data:
  "common_parameter_checks isotherm model registry geometry = Some e \<Longrightarrow> e \<noteq> err_branch_data"
  by (auto simp: common_parameter_checks_def error_defs split: if_splits)

lemma sub_model_not_branch_data:
  "sub_model_checks params key name registry = Inl e \<Longrightarrow> e \<noteq> err_branch_data"
  by (auto simp: sub_model_checks_def Let_def error_defs split: if_splits)

subsection \<open>The pieces\<close>

lemma fst_result_and_plot:
  "fst (result_and_plot imp assigned verbose lg xmax) =
     (case assigned of
        None \<Rightarrow> []
      | Some (w, d) \<Rightarrow> if verbose then [Call_psd_plot w d lg xmax] else [])"
  by (simp add: result_and_plot_def run_defs split: option.splits prod.splits sum.splits)

lemma result_and_plot_Exception:
  "snd (result_and_plot imp assigned verbose lg xmax) = Inl (Exception args) \<Longrightarrow> False"
  unfolding result_and_plot_def
  by (auto simp: Let_def ret_def dest!: seq_Inl call_Exception local_var_Exception
      split: if_splits prod.splits)

lemma meso_read_data_adsorption:
  assumes "loading_ads isotherm ''mmol'' = Inr (Some l)"
    and "pressure_ads isotherm = Inr (Some p)"
  shows "meso_read_data isotherm (PyStr ''adsorption'') =
           ([Call_loading_ads ''mmol'', Call_pressure_ads], Inr (Some (rev l), Some (rev p)))"
  using assms by (simp add: meso_read_data_def py_reversed_def run_defs)

lemma meso_read_data_desorption:
  assumes "loading_des isotherm ''mmol'' = Inr l" and "pressure_des isotherm = Inr p"
  shows "meso_read_data isotherm (PyStr ''desorption'') =
           ([Call_loading_des ''mmol'', Call_pressure_des],
            if l = None then Inl err_branch_data else Inr (l, p))"
  using assms by (simp add: meso_read_data_def run_defs)

lemma meso_engine_call:
  assumes "model = PyStr ''BJH'' \<or> model = PyStr ''DH''"
  shows "fst (meso_call_engine imp model loading pressure geometry (Some t) k ld mm) =
           [if model = PyStr ''BJH'' then Call_psd_bjh loading pressure geometry t k ld mm
            else Call_psd_dollimore_heal loading pressure geometry t k ld mm]"
  using assms
  by (auto simp: meso_call_engine_def run_defs split: sum.splits)

lemma micro_engine_call:
  "fst (micro_call_engine imp (PyStr ''HK'') loading pressure T geometry mx props (Some ads))
     = [Call_psd_horvath_kawazoe loading pressure T geometry mx props ads]"
  by (auto simp: micro_call_engine_def run_defs split: sum.splits)

lemma micro_call_engine_Exception:
  "snd (micro_call_engine imp model l p T g mx props ads) = Inl (Exception args) \<Longrightarrow> False"
  unfolding micro_call_engine_def
  by (auto simp: ret_def dest!: seq_Inl call_Exception local_var_Exception split: if_splits)

text \<open>The mesopore function once the checks have passed and the adsorbate properties
  were found: the four lookups, then the data, the meniscus, the engine and the result.\<close>

lemma meso_after_checks:
  assumes "common_parameter_checks isotherm model MESO_PSD_MODELS geometry = None"
    and "branch_checks params = Inr b"
    and "sub_model_checks params ''thickness_model'' ''Harkins/Jura'' (THICKNESS_MODELS imp)
           = Inr tm"
    and "Adsorbate_from_list imp (gas isotherm) = Inr a"
    and "molar_mass a = Inr mm"
    and "liquid_density a (t_exp isotherm) = Inr ld"
    and "surface_tension a (t_exp isotherm) = Inr st"
  shows "mesopore_size_distribution imp isotherm model geometry verbose params =
     seq ([Call_from_list (gas isotherm), Call_molar_mass,
           Call_liquid_density (t_exp isotherm), Call_surface_tension (t_exp isotherm)],
          Inr ()) (\<lambda>_.
     seq (meso_read_data isotherm b) (\<lambda>(loading, pressure).
     seq (call (Call_meniscus_geometry b geometry) (meniscus_geometry imp b geometry))
       (\<lambda>m_geometry.
     seq (meso_call_engine imp model loading pressure geometry (select_t_model tm)
            \<lparr>kw_meniscus_geometry = m_geometry, kw_temperature = t_exp isotherm,
              kw_liquid_density = ld, kw_adsorbate_molar_mass = mm,
              kw_adsorbate_surface_tension = st\<rparr> ld mm) (\<lambda>assigned.
     result_and_plot imp assigned verbose None None))))"
  using assms
  by (simp add: mesopore_size_distribution_def seq_def call_def split: prod.splits)

text \<open>The same for the micropore function, up to the three reads of the isotherm.\<close>

lemma micro_after_checks:
  assumes "common_parameter_checks isotherm model MICRO_PSD_MODELS geometry = None"
    and "sub_model_checks params ''adsorbent_model'' ''Carbon(HK)'' (ADSORBENT_MODELS imp)
           = Inr am"
    and "Adsorbate_from_list imp (gas isotherm) = Inr a"
    and "get_prop a ''molecular_diameter'' = Inr d"
    and "get_prop a ''polarizability'' = Inr p"
    and "get_prop a ''magnetic_susceptibility'' = Inr m"
    and "get_prop a ''surface_density'' = Inr s"
    and "loading_ads isotherm ''mmol'' = Inr loading"
    and "pressure_ads isotherm = Inr pressure"
    and "loading_at isotherm (9 / 10) = Inr maximum_adsorbed"
  shows "micropore_size_distribution imp isotherm model geometry verbose params =
     seq ([Call_from_list (gas isotherm), Call_get_prop ''molecular_diameter'',
           Call_get_prop ''polarizability'', Call_get_prop ''magnetic_susceptibility'',
           Call_get_prop ''surface_density'', Call_loading_ads ''mmol'', Call_pressure_ads,
           Call_loading_at (9 / 10)], Inr ()) (\<lambda>_.
     seq (micro_call_engine imp model loading pressure (t_exp isotherm) geometry
            maximum_adsorbed
            \<lparr>molecular_diameter = d, polarizability = p, magnetic_susceptibility = m,
              surface_density = s\<rparr> (select_adsorbent_properties am)) (\<lambda>assigned.
     result_and_plot imp assigned verbose (Some False) (Some 2)))"
  using assms
  by (simp add: micropore_size_distribution_def seq_def call_def split: prod.splits)

subsection \<open>The verbose flag\<close>
















subsection \<open>The example objects\<close>

lemma iso_full_fields:
  "mode_adsorbent iso_full = ''mass''" "mode_pressure iso_full = ''relative''"
  "gas iso_full = ''N2''" "t_exp iso_full = 77"
  "loading_ads iso_full unit = Inr (Some [1, 2, 3, 4, 5, 6])"
  "pressure_ads iso_full = Inr (Some [1 / 10, 3 / 10, 5 / 10, 7 / 10, 9 / 10, 99 / 100])"
  "loading_des iso_full unit = Inr (Some [6, 4, 2])"
  "pressure_des iso_full = Inr (Some [9 / 10, 5 / 10, 1 / 10])"
  "loading_at iso_full q = Inr 5"
  by (simp_all add: iso_full_def)

lemma iso_empty_fields:
  "mode_adsorbent iso_empty = ''mass''" "mode_pressure iso_empty = ''relative''"
  "gas iso_empty = ''N2''" "t_exp iso_empty = 77"
  "loading_ads iso_empty unit = Inr None" "pressure_ads iso_empty = Inr None"
  "loading_des iso_empty unit = Inr None" "pressure_des iso_empty = Inr None"
  "loading_at iso_empty q = Inr 5"
  by (simp_all add: iso_empty_def iso_full_def)

lemma nitrogen_fields:
  "molar_mass nitrogen = Inr 28" "liquid_density nitrogen T = Inr (4 / 5)"
  "surface_tension nitrogen T = Inr 9" "get_prop nitrogen name = Inr 1"
  by (simp_all add: nitrogen_def)

lemma lab_fields:
  "THICKNESS_MODELS lab = [''Halsey'', ''Harkins/Jura'']"
  "ADSORBENT_MODELS lab = [''Carbon(HK)'', ''OxideIon(SF)'']"
  "Adsorbate_from_list lab ''N2'' = Inr nitrogen"
  "meniscus_geometry lab b g = Inr ''hemispherical''"
  "psd_plot lab w d lg xmax = Inr (w, d)"
  "psd_horvath_kawazoe lab None None T g mx props ads = Inl ''engine: array expected''"
  by (simp_all add: lab_def stub_engine_def)


subsection \<open>Loading and pressure basis\<close>

text \<open>
  Claim C1, as far as it holds. When the loading basis of the isotherm is not
  \<open>mass\<close> or its pressure basis is not \<open>relative\<close>, both classical entry functions
  (\<open>mesopore_size_distribution\<close>, \<open>micropore_size_distribution\<close>) raise the exception
  of the first of the two checks that fails, whatever the other arguments are, and the
  trace is empty: no callee, hence no engine, was called.
\<close>

theorem classical_psd_mode_preconditions:
  assumes "mode_adsorbent isotherm \<noteq> ''mass'' \<or> mode_pressure isotherm \<noteq> ''relative''"
  shows "mesopore_size_distribution imp isotherm model geometry verbose params =
           ([], Inl (if mode_adsorbent isotherm \<noteq> ''mass'' then err_not_mass
                     else err_not_relative))
       \<and> micropore_size_distribution imp isotherm model geometry verbose params =
           ([], Inl (if mode_adsorbent isotherm \<noteq> ''mass'' then err_not_mass
                     else err_not_relative))"
  using assms
  by (auto simp: mesopore_size_distribution_def micropore_size_distribution_def
      common_parameter_checks_def raise_def)

text \<open>The theorem at an isotherm in volume basis and absolute pressure.\<close>

theorem classical_psd_mode_preconditions_witness:
  "mode_adsorbent iso_volume \<noteq> ''mass''
   \<and> mesopore_size_distribution lab iso_volume (PyStr ''BJH'') (PyStr ''cylinder'') False
        [''branch'' \<mapsto> PyStr ''adsorption''] = ([], Inl err_not_mass)
   \<and> micropore_size_distribution lab iso_volume (PyStr ''HK'') (PyStr ''cylinder'') False
        Map.empty = ([], Inl err_not_mass)"
proof -
  have h: "mode_adsorbent iso_volume \<noteq> ''mass'' \<or> mode_pressure iso_volume \<noteq> ''relative''"
    by (simp add: iso_volume_def)
  show ?thesis
    using h
      classical_psd_mode_preconditions [OF h, of lab "PyStr ''BJH''" "PyStr ''cylinder''"
        False "[''branch'' \<mapsto> PyStr ''adsorption'']"]
      classical_psd_mode_preconditions [OF h, of lab "PyStr ''HK''" "PyStr ''cylinder''"
        False Map.empty]
    by (simp add: iso_volume_def)
qed

text \<open>
  Claim C1 as stated also covers \<open>dft_size_distribution\<close>, which has no such check:
  on an isotherm in volume basis and absolute pressure it reads the adsorption arrays,
  calls the kernel fit engine and returns its result.
\<close>

theorem dft_ignores_modes_counterexample:
  "mode_adsorbent iso_volume \<noteq> ''mass'' \<and> mode_pressure iso_volume \<noteq> ''relative''
   \<and> dft_size_distribution lab iso_volume ''kernel'' False Map.empty =
     ([Call_loading_ads ''mmol'', Call_pressure_ads,
       Call_psd_dft_kernel_fit (Some [1 / 10, 3 / 10, 5 / 10, 7 / 10, 9 / 10, 99 / 100])
         (Some [1, 2, 3, 4, 5, 6]) ''kernel''],
      Inr [''pore_widths'' \<mapsto> [1 / 10, 3 / 10, 5 / 10, 7 / 10, 9 / 10, 99 / 100],
           ''pore_distribution'' \<mapsto> [1, 2, 3, 4, 5, 6]])"
  by (simp add: dft_size_distribution_def run_defs piece_defs example_defs)

subsection \<open>The registered mesopore models\<close>

text \<open>
  Claim C2 at the model name \<open>HK\<close>. The name is in the mesopore registry, so every
  check passes; no branch of the engine selection handles it, so no engine is called
  and building the result dictionary reads the unassigned variable \<^verbatim>\<open>pore_widths\<close>.
\<close>

theorem meso_HK_registered_without_engine:
  "py_in (PyStr ''HK'') MESO_PSD_MODELS
   \<and> mesopore_size_distribution lab iso_full (PyStr ''HK'') (PyStr ''cylinder'') False
       [''branch'' \<mapsto> PyStr ''adsorption''] =
     ([Call_from_list ''N2'', Call_molar_mass, Call_liquid_density 77,
       Call_surface_tension 77, Call_loading_ads ''mmol'', Call_pressure_ads,
       Call_meniscus_geometry (PyStr ''adsorption'') (PyStr ''cylinder'')],
      Inl (UnboundLocalError ''pore_widths''))"
  by (simp add: mesopore_size_distribution_def run_defs piece_defs example_defs registry_defs)

text \<open>This is so for every isotherm and configuration: with the model name \<open>HK\<close> the
  mesopore function never returns a result.\<close>

lemma meso_HK_never_returns:
  "snd (mesopore_size_distribution imp isotherm (PyStr ''HK'') geometry verbose params) \<noteq> Inr r"
  unfolding mesopore_size_distribution_def
  by (auto simp: Let_def meso_call_engine_def result_and_plot_def run_defs
      split: option.splits sum.splits prod.splits)

text \<open>For the names \<open>BJH\<close> and \<open>DH\<close> the claim holds: when the checks pass, the
  thickness function is one of the two known ones, and the lookups, the data access, the
  meniscus selection and the engine of that name return, the function returns the
  dictionary of the two arrays the engine produced.\<close>

lemma meso_bjh_dh_returns:
  assumes "mode_adsorbent isotherm = ''mass''" and "mode_pressure isotherm = ''relative''"
    and "model = PyStr ''BJH'' \<or> model = PyStr ''DH''"
    and "py_in geometry PORE_GEOMETRIES"
    and "params ''branch'' = Some b" and "py_in b [''adsorption'', ''desorption'']"
    and "sub_model_checks params ''thickness_model'' ''Harkins/Jura'' (THICKNESS_MODELS imp)
           = Inr tm"
    and "select_t_model tm = Some t"
    and "Adsorbate_from_list imp (gas isotherm) = Inr a"
    and "molar_mass a = Inr mm"
    and "liquid_density a (t_exp isotherm) = Inr ld"
    and "surface_tension a (t_exp isotherm) = Inr st"
    and "meso_read_data isotherm b = (tr, Inr (loading, pressure))"
    and "meniscus_geometry imp b geometry = Inr mg"
    and "k = \<lparr>kw_meniscus_geometry = mg, kw_temperature = t_exp isotherm,
              kw_liquid_density = ld, kw_adsorbate_molar_mass = mm,
              kw_adsorbate_surface_tension = st\<rparr>"
    and "(if model = PyStr ''BJH'' then psd_bjh imp loading pressure geometry t k ld mm
          else psd_dollimore_heal imp loading pressure geometry t k ld mm) = Inr (w, d)"
  shows "snd (mesopore_size_distribution imp isotherm model geometry False params)
           = Inr [''pore_widths'' \<mapsto> w, ''pore_distribution'' \<mapsto> d]"
proof -
  have c: "common_parameter_checks isotherm model MESO_PSD_MODELS geometry = None"
    using assms(1-4) by (auto simp: common_parameter_checks_def MESO_PSD_MODELS_def)
  have bc: "branch_checks params = Inr b"
    using assms(5,6) by (rule branch_checks_pass)
  show ?thesis
    unfolding meso_after_checks [OF c bc assms(7,9-12)]
    using assms(3,8,13-16)
    by (auto simp: snd_seq meso_call_engine_def result_and_plot_def result_dict_of_def
        run_defs)
qed

subsection \<open>A branch without data\<close>

text \<open>
  Claim C3 on the adsorption branch. The accessor result is reversed before it is
  tested: when the isotherm has no adsorption data the subscript of \<^verbatim>\<open>None\<close> raises a
  \<open>TypeError\<close>, and the exception of line 143 is never reached.
\<close>

theorem meso_adsorption_without_data:
  "loading_ads iso_empty ''mmol'' = Inr None
   \<and> mesopore_size_distribution lab iso_empty (PyStr ''BJH'') (PyStr ''cylinder'') False
       [''branch'' \<mapsto> PyStr ''adsorption''] =
     ([Call_from_list ''N2'', Call_molar_mass, Call_liquid_density 77,
       Call_surface_tension 77, Call_loading_ads ''mmol''],
      Inl err_subscript_None)
   \<and> err_subscript_None \<noteq> err_branch_data"
  by (simp add: mesopore_size_distribution_def run_defs piece_defs example_defs registry_defs
      err_subscript_None_def err_branch_data_def)

text \<open>On the desorption branch the claim holds: without desorption data the function
  raises the exception of line 143 after the adsorbate lookups and the two reads, before
  the meniscus selection and the engine.\<close>

lemma meso_desorption_without_data:
  assumes "mode_adsorbent isotherm = ''mass''" and "mode_pressure isotherm = ''relative''"
    and "py_in model MESO_PSD_MODELS" and "py_in geometry PORE_GEOMETRIES"
    and "params ''branch'' = Some (PyStr ''desorption'')"
    and "sub_model_checks params ''thickness_model'' ''Harkins/Jura'' (THICKNESS_MODELS imp)
           = Inr tm"
    and "Adsorbate_from_list imp (gas isotherm) = Inr a"
    and "molar_mass a = Inr mm"
    and "liquid_density a (t_exp isotherm) = Inr ld"
    and "surface_tension a (t_exp isotherm) = Inr st"
    and "loading_des isotherm ''mmol'' = Inr None"
    and "pressure_des isotherm = Inr p"
  shows "mesopore_size_distribution imp isotherm model geometry verbose params =
           ([Call_from_list (gas isotherm), Call_molar_mass,
             Call_liquid_density (t_exp isotherm), Call_surface_tension (t_exp isotherm),
             Call_loading_des ''mmol'', Call_pressure_des], Inl err_branch_data)"
proof -
  have c: "common_parameter_checks isotherm model MESO_PSD_MODELS geometry = None"
    using assms(1-4) by (rule common_checks_pass)
  have bc: "branch_checks params = Inr (PyStr ''desorption'')"
    using assms(5) by (simp add: branch_checks_def py_get_def)
  show ?thesis
    unfolding meso_after_checks [OF c bc assms(6-10)]
      meso_read_data_desorption [OF assms(11,12)]
    by (simp add: seq_def)
qed

subsection \<open>The order of the arrays\<close>

text \<open>
  Claim C4. Let the checks of \<open>mesopore_size_distribution\<close> pass for the model BJH or
  DH, the thickness function be one of the two known ones, and the adsorbate lookups and
  the meniscus selection return. With \<open>branch = adsorption\<close> and adsorption arrays
  \<open>l\<close> and \<open>p\<close>, the one engine call of the run receives \<open>rev l\<close> and \<open>rev p\<close>: the
  last point of the isotherm comes first. With \<open>branch = desorption\<close> the engine
  receives the two desorption arrays as the accessors returned them.
\<close>

theorem meso_branch_array_order:
  assumes "mode_adsorbent isotherm = ''mass''" and "mode_pressure isotherm = ''relative''"
    and "model = PyStr ''BJH'' \<or> model = PyStr ''DH''"
    and "py_in geometry PORE_GEOMETRIES"
    and "params ''branch'' = Some b"
    and "sub_model_checks params ''thickness_model'' ''Harkins/Jura'' (THICKNESS_MODELS imp)
           = Inr tm"
    and "select_t_model tm = Some t"
    and "Adsorbate_from_list imp (gas isotherm) = Inr a"
    and "molar_mass a = Inr mm"
    and "liquid_density a (t_exp isotherm) = Inr ld"
    and "surface_tension a (t_exp isotherm) = Inr st"
    and "meniscus_geometry imp b geometry = Inr mg"
  shows
   "(b = PyStr ''adsorption'' \<longrightarrow>
       (\<forall>l p. loading_ads isotherm ''mmol'' = Inr (Some l) \<longrightarrow>
              pressure_ads isotherm = Inr (Some p) \<longrightarrow>
          meso_engine_arrays
            (fst (mesopore_size_distribution imp isotherm model geometry verbose params))
          = [(Some (rev l), Some (rev p))]))
  \<and> (b = PyStr ''desorption'' \<longrightarrow>
       (\<forall>l p. loading_des isotherm ''mmol'' = Inr (Some l) \<longrightarrow>
              pressure_des isotherm = Inr p \<longrightarrow>
          meso_engine_arrays
            (fst (mesopore_size_distribution imp isotherm model geometry verbose params))
          = [(Some l, p)]))"
proof -
  have c: "common_parameter_checks isotherm model MESO_PSD_MODELS geometry = None"
    using assms(1-4) by (auto simp: common_parameter_checks_def MESO_PSD_MODELS_def)
  have run: "mesopore_size_distribution imp isotherm model geometry verbose params =
     seq ([Call_from_list (gas isotherm), Call_molar_mass,
           Call_liquid_density (t_exp isotherm), Call_surface_tension (t_exp isotherm)],
          Inr ()) (\<lambda>_.
     seq (meso_read_data isotherm b) (\<lambda>(loading, pressure).
     seq (call (Call_meniscus_geometry b geometry) (meniscus_geometry imp b geometry))
       (\<lambda>m_geometry.
     seq (meso_call_engine imp model loading pressure geometry (select_t_model tm)
            \<lparr>kw_meniscus_geometry = m_geometry, kw_temperature = t_exp isotherm,
              kw_liquid_density = ld, kw_adsorbate_molar_mass = mm,
              kw_adsorbate_surface_tension = st\<rparr> ld mm) (\<lambda>assigned.
     result_and_plot imp assigned verbose None None))))"
    if "py_in b [''adsorption'', ''desorption'']"
    using meso_after_checks [OF c branch_checks_pass [of params b] assms(6,8-11)] that assms(5)
    by simp
  have ads: "meso_engine_arrays
            (fst (mesopore_size_distribution imp isotherm model geometry verbose params))
          = [(Some (rev l), Some (rev p))]"
    if "b = PyStr ''adsorption''" "loading_ads isotherm ''mmol'' = Inr (Some l)"
      "pressure_ads isotherm = Inr (Some p)" for l p
    using that assms(3,7,12) meso_read_data_adsorption [OF that(2,3)]
      meso_engine_call [OF assms(3)]
    by (auto simp: run fst_seq snd_seq call_def meso_engine_arrays_append
        fst_result_and_plot split: sum.splits option.splits)
  have des: "meso_engine_arrays
            (fst (mesopore_size_distribution imp isotherm model geometry verbose params))
          = [(Some l, p)]"
    if "b = PyStr ''desorption''" "loading_des isotherm ''mmol'' = Inr (Some l)"
      "pressure_des isotherm = Inr p" for l p
    using that assms(3,7,12) meso_read_data_desorption [OF that(2,3)]
      meso_engine_call [OF assms(3)]
    by (auto simp: run fst_seq snd_seq call_def meso_engine_arrays_append
        fst_result_and_plot split: sum.splits option.splits)
  show ?thesis using ads des by blast
qed

text \<open>The theorem on the isotherm with adsorption pressures 0.1, 0.3, 0.5, 0.7, 0.9,
  0.99: the BJH engine is handed the pressures starting at 0.99; the Dollimore-Heal
  engine is handed the desorption arrays unchanged.\<close>

theorem meso_branch_array_order_witness:
  "meso_engine_arrays (fst (mesopore_size_distribution lab iso_full (PyStr ''BJH'')
       (PyStr ''cylinder'') False [''branch'' \<mapsto> PyStr ''adsorption'']))
     = [(Some [6, 5, 4, 3, 2, 1], Some [99 / 100, 9 / 10, 7 / 10, 5 / 10, 3 / 10, 1 / 10])]
 \<and> meso_engine_arrays (fst (mesopore_size_distribution lab iso_full (PyStr ''DH'')
       (PyStr ''cylinder'') False [''branch'' \<mapsto> PyStr ''desorption'']))
     = [(Some [6, 4, 2], Some [9 / 10, 5 / 10, 1 / 10])]"
proof -
  have g: "py_in (PyStr ''cylinder'') PORE_GEOMETRIES"
    by (simp add: registry_defs)
  have tm: "sub_model_checks [''branch'' \<mapsto> b] ''thickness_model'' ''Harkins/Jura''
      (THICKNESS_MODELS lab) = Inr (PyStr ''Harkins/Jura'')" for b
    by (simp add: sub_model_checks_def lab_def)
  have t: "select_t_model (PyStr ''Harkins/Jura'') = Some thickness_harkins_jura"
    by (simp add: select_t_model_def)
  have a: "Adsorbate_from_list lab (gas iso_full) = Inr nitrogen"
    by (simp add: lab_def iso_full_def)
  have bjh: "PyStr ''BJH'' = PyStr ''BJH'' \<or> PyStr ''BJH'' = PyStr ''DH''"
    and dh: "PyStr ''DH'' = PyStr ''BJH'' \<or> PyStr ''DH'' = PyStr ''DH''"
    by simp_all
  have b: "[''branch'' \<mapsto> x] ''branch'' = Some x" for x :: pyval
    by simp
  show ?thesis
    using
      meso_branch_array_order [OF iso_full_fields(1,2) bjh g b tm t a nitrogen_fields(1-3)
        lab_fields(4), of "PyStr ''adsorption''" False]
      meso_branch_array_order [OF iso_full_fields(1,2) dh g b tm t a nitrogen_fields(1-3)
        lab_fields(4), of "PyStr ''desorption''" False]
      iso_full_fields(5-8)
    by simp
qed

subsection \<open>The order of the checks\<close>

text \<open>
  Claim C5. Both classical entry functions test, in this order: the loading basis is
  \<open>mass\<close>; the pressure basis is \<open>relative\<close>; a model name is given; the name is in
  the registry of the function; the geometry is in the geometry registry. The first
  test that fails decides the exception, whatever the later tests would say, and the
  trace is empty: the exception is raised before any adsorbate property is looked up.
  The five exceptions differ from one another.
\<close>

theorem precondition_order:
  "(mode_adsorbent isotherm \<noteq> ''mass'' \<longrightarrow>
      mesopore_size_distribution imp isotherm model geometry verbose params
        = ([], Inl err_not_mass)
    \<and> micropore_size_distribution imp isotherm model geometry verbose params
        = ([], Inl err_not_mass))
 \<and> (mode_adsorbent isotherm = ''mass'' \<longrightarrow> mode_pressure isotherm \<noteq> ''relative'' \<longrightarrow>
      mesopore_size_distribution imp isotherm model geometry verbose params
        = ([], Inl err_not_relative)
    \<and> micropore_size_distribution imp isotherm model geometry verbose params
        = ([], Inl err_not_relative))
 \<and> (mode_adsorbent isotherm = ''mass'' \<longrightarrow> mode_pressure isotherm = ''relative'' \<longrightarrow>
      model = PyNone \<longrightarrow>
      mesopore_size_distribution imp isotherm model geometry verbose params
        = ([], Inl err_no_model)
    \<and> micropore_size_distribution imp isotherm model geometry verbose params
        = ([], Inl err_no_model))
 \<and> (mode_adsorbent isotherm = ''mass'' \<longrightarrow> mode_pressure isotherm = ''relative'' \<longrightarrow>
      model \<noteq> PyNone \<longrightarrow> \<not> py_in model MESO_PSD_MODELS \<longrightarrow>
      mesopore_size_distribution imp isotherm model geometry verbose params
        = ([], Inl (err_psd_model model MESO_PSD_MODELS)))
 \<and> (mode_adsorbent isotherm = ''mass'' \<longrightarrow> mode_pressure isotherm = ''relative'' \<longrightarrow>
      model \<noteq> PyNone \<longrightarrow> \<not> py_in model MICRO_PSD_MODELS \<longrightarrow>
      micropore_size_distribution imp isotherm model geometry verbose params
        = ([], Inl (err_psd_model model MICRO_PSD_MODELS)))
 \<and> (mode_adsorbent isotherm = ''mass'' \<longrightarrow> mode_pressure isotherm = ''relative'' \<longrightarrow>
      py_in model MESO_PSD_MODELS \<longrightarrow> \<not> py_in geometry PORE_GEOMETRIES \<longrightarrow>
      mesopore_size_distribution imp isotherm model geometry verbose params
        = ([], Inl (err_geometry geometry)))
 \<and> (mode_adsorbent isotherm = ''mass'' \<longrightarrow> mode_pressure isotherm = ''relative'' \<longrightarrow>
      py_in model MICRO_PSD_MODELS \<longrightarrow> \<not> py_in geometry PORE_GEOMETRIES \<longrightarrow>
      micropore_size_distribution imp isotherm model geometry verbose params
        = ([], Inl (err_geometry geometry)))
 \<and> distinct [err_not_mass, err_not_relative, err_no_model, err_psd_model model registry,
      err_geometry geometry]"
  by (auto simp: mesopore_size_distribution_def micropore_size_distribution_def
      common_parameter_checks_def raise_def error_defs)

text \<open>The theorem on inputs that fail several tests at once: each time the exception
  is that of the first failing test. The exception for an unregistered model name lists
  the registry.\<close>

theorem precondition_order_witness:
  "mesopore_size_distribution lab iso_volume (PyStr ''XYZ'') (PyStr ''cube'') False Map.empty
     = ([], Inl err_not_mass)
 \<and> micropore_size_distribution lab iso_volume (PyStr ''XYZ'') (PyStr ''cube'') False Map.empty
     = ([], Inl err_not_mass)
 \<and> mesopore_size_distribution lab (iso_full\<lparr>mode_pressure := ''absolute''\<rparr>) PyNone
       (PyStr ''cube'') False Map.empty = ([], Inl err_not_relative)
 \<and> micropore_size_distribution lab (iso_full\<lparr>mode_pressure := ''absolute''\<rparr>) PyNone
       (PyStr ''cube'') False Map.empty = ([], Inl err_not_relative)
 \<and> mesopore_size_distribution lab iso_full PyNone (PyStr ''cube'') False Map.empty
     = ([], Inl err_no_model)
 \<and> micropore_size_distribution lab iso_full PyNone (PyStr ''cube'') False Map.empty
     = ([], Inl err_no_model)
 \<and> mesopore_size_distribution lab iso_full (PyStr ''XYZ'') (PyStr ''cube'') False Map.empty
     = ([], Inl (Exception [''Model XYZ not an option for psd.'',
          ''Available models are ['BJH', 'DH', 'HK']'']))
 \<and> micropore_size_distribution lab iso_full (PyStr ''BJH'') (PyStr ''cube'') False Map.empty
     = ([], Inl (Exception [''Model BJH not an option for psd.'',
          ''Available models are ['HK']'']))
 \<and> mesopore_size_distribution lab iso_full (PyStr ''BJH'') (PyStr ''cube'') False Map.empty
     = ([], Inl (err_geometry (PyStr ''cube'')))
 \<and> micropore_size_distribution lab iso_full (PyStr ''HK'') (PyStr ''cube'') False Map.empty
     = ([], Inl (err_geometry (PyStr ''cube'')))"
  using
    precondition_order [of iso_volume lab "PyStr ''XYZ''" "PyStr ''cube''" False Map.empty]
    precondition_order [of "iso_full\<lparr>mode_pressure := ''absolute''\<rparr>" lab PyNone
      "PyStr ''cube''" False Map.empty]
    precondition_order [of iso_full lab PyNone "PyStr ''cube''" False Map.empty]
    precondition_order [of iso_full lab "PyStr ''XYZ''" "PyStr ''cube''" False Map.empty]
    precondition_order [of iso_full lab "PyStr ''BJH''" "PyStr ''cube''" False Map.empty]
    precondition_order [of iso_full lab "PyStr ''HK''" "PyStr ''cube''" False Map.empty]
  by (simp add: iso_volume_def iso_full_def registry_defs err_psd_model_def repr_defs)

subsection \<open>Branch and thickness model\<close>

lemma meso_read_data_no_engine:
  "meso_engine_thickness (fst (meso_read_data isotherm branch)) = []"
  by (auto simp: meso_read_data_def py_reversed_def run_defs split: sum.splits option.splits)

text \<open>
  Claim C6. Let the loading basis, the pressure basis, the model name and the geometry
  pass their checks. Then \<open>mesopore_size_distribution\<close>
  \<^item> raises the missing-branch exception when the configuration has no \<open>branch\<close>
    entry (or the entry is \<^verbatim>\<open>None\<close>);
  \<^item> raises the invalid-branch exception when the entry is neither \<open>adsorption\<close> nor
    \<open>desorption\<close>;
  \<^item> raises the unregistered-model exception when the branch is valid and a
    \<open>thickness_model\<close> entry is supplied that is not in the thickness registry;
  \<^item> without a \<open>thickness_model\<close> entry, runs exactly as with the entry
    \<open>Harkins/Jura\<close>; and when that name is registered and the run reaches the engine
    (BJH or DH), the engine receives the Harkins/Jura thickness function.
  All three exceptions leave an empty trace.
\<close>

theorem meso_branch_and_thickness_checks:
  assumes "mode_adsorbent isotherm = ''mass''" and "mode_pressure isotherm = ''relative''"
    and "py_in model MESO_PSD_MODELS" and "py_in geometry PORE_GEOMETRIES"
  shows
   "(params ''branch'' = None \<or> params ''branch'' = Some PyNone \<longrightarrow>
       mesopore_size_distribution imp isotherm model geometry verbose params
         = ([], Inl err_no_branch))
  \<and> (\<forall>b. params ''branch'' = Some b \<longrightarrow> b \<noteq> PyNone \<longrightarrow>
       \<not> py_in b [''adsorption'', ''desorption''] \<longrightarrow>
       mesopore_size_distribution imp isotherm model geometry verbose params
         = ([], Inl (err_branch b)))
  \<and> (\<forall>b t. params ''branch'' = Some b \<longrightarrow> py_in b [''adsorption'', ''desorption''] \<longrightarrow>
       params ''thickness_model'' = Some t \<longrightarrow> \<not> py_in t (THICKNESS_MODELS imp) \<longrightarrow>
       mesopore_size_distribution imp isotherm model geometry verbose params
         = ([], Inl (err_sub_model t (THICKNESS_MODELS imp))))
  \<and> (''thickness_model'' \<notin> dom params \<longrightarrow>
       mesopore_size_distribution imp isotherm model geometry verbose params
         = mesopore_size_distribution imp isotherm model geometry verbose
             (params(''thickness_model'' \<mapsto> PyStr ''Harkins/Jura'')))
  \<and> (\<forall>b a mm ld st tr loading pressure mg.
       ''thickness_model'' \<notin> dom params \<longrightarrow>
       ''Harkins/Jura'' \<in> set (THICKNESS_MODELS imp) \<longrightarrow>
       model \<noteq> PyStr ''HK'' \<longrightarrow>
       params ''branch'' = Some b \<longrightarrow> py_in b [''adsorption'', ''desorption''] \<longrightarrow>
       Adsorbate_from_list imp (gas isotherm) = Inr a \<longrightarrow>
       molar_mass a = Inr mm \<longrightarrow>
       liquid_density a (t_exp isotherm) = Inr ld \<longrightarrow>
       surface_tension a (t_exp isotherm) = Inr st \<longrightarrow>
       meso_read_data isotherm b = (tr, Inr (loading, pressure)) \<longrightarrow>
       meniscus_geometry imp b geometry = Inr mg \<longrightarrow>
       meso_engine_thickness
         (fst (mesopore_size_distribution imp isotherm model geometry verbose params))
         = [thickness_harkins_jura])"
proof -
  have c: "common_parameter_checks isotherm model MESO_PSD_MODELS geometry = None"
    using assms by (rule common_checks_pass)
  have absent: "mesopore_size_distribution imp isotherm model geometry verbose params
         = ([], Inl err_no_branch)"
    if "params ''branch'' = None \<or> params ''branch'' = Some PyNone"
    using that c
    by (auto simp: mesopore_size_distribution_def branch_checks_def py_get_def raise_def)
  have invalid: "mesopore_size_distribution imp isotherm model geometry verbose params
         = ([], Inl (err_branch b))"
    if "params ''branch'' = Some b" "b \<noteq> PyNone" "\<not> py_in b [''adsorption'', ''desorption'']"
    for b
    using that c
    by (simp add: mesopore_size_distribution_def branch_checks_def py_get_def raise_def)
  have unregistered: "mesopore_size_distribution imp isotherm model geometry verbose params
         = ([], Inl (err_sub_model t (THICKNESS_MODELS imp)))"
    if "params ''branch'' = Some b" "py_in b [''adsorption'', ''desorption'']"
      "params ''thickness_model'' = Some t" "\<not> py_in t (THICKNESS_MODELS imp)"
    for b t
    using that c branch_checks_pass [of params b]
    by (simp add: mesopore_size_distribution_def sub_model_checks_def py_get_def raise_def
        domIff)
  have dflt: "mesopore_size_distribution imp isotherm model geometry verbose params
         = mesopore_size_distribution imp isotherm model geometry verbose
             (params(''thickness_model'' \<mapsto> PyStr ''Harkins/Jura''))"
    if "''thickness_model'' \<notin> dom params"
    unfolding mesopore_size_distribution_def
      sub_model_default [OF that, of "''Harkins/Jura''" "THICKNESS_MODELS imp"]
      branch_checks_other_key [of "''thickness_model''" params "Some (PyStr ''Harkins/Jura'')",
        simplified]
    by (rule refl)
  have engine: "meso_engine_thickness
         (fst (mesopore_size_distribution imp isotherm model geometry verbose params))
         = [thickness_harkins_jura]"
    if h: "''thickness_model'' \<notin> dom params" "''Harkins/Jura'' \<in> set (THICKNESS_MODELS imp)"
      "model \<noteq> PyStr ''HK''"
      "params ''branch'' = Some b" "py_in b [''adsorption'', ''desorption'']"
      and l: "Adsorbate_from_list imp (gas isotherm) = Inr a"
      "molar_mass a = Inr mm"
      "liquid_density a (t_exp isotherm) = Inr ld"
      "surface_tension a (t_exp isotherm) = Inr st"
      and d: "meso_read_data isotherm b = (tr, Inr (loading, pressure))"
      and mg: "meniscus_geometry imp b geometry = Inr mg"
    for b a mm ld st tr loading pressure mg
  proof -
    have tm: "sub_model_checks params ''thickness_model'' ''Harkins/Jura''
        (THICKNESS_MODELS imp) = Inr (PyStr ''Harkins/Jura'')"
      using h(1,2) by (simp add: sub_model_checks_def)
    have t: "select_t_model (PyStr ''Harkins/Jura'') = Some thickness_harkins_jura"
      by (simp add: select_t_model_def)
    have m: "model = PyStr ''BJH'' \<or> model = PyStr ''DH''"
      using assms(3) h(3) by (cases model) (auto simp: MESO_PSD_MODELS_def)
    have tr: "meso_engine_thickness tr = []"
      using meso_read_data_no_engine [of isotherm b] d by simp
    show ?thesis
      unfolding meso_after_checks [OF c branch_checks_pass [of params b, OF h(4,5)] tm l] t
      using d mg m tr meso_engine_call [OF m]
      by (auto simp: fst_seq snd_seq call_def meso_engine_thickness_append
          fst_result_and_plot split: sum.splits option.splits)
  qed
  show ?thesis
    using absent invalid unregistered dflt engine by blast
qed

text \<open>The theorem on the example isotherm: no branch, the branch \<open>both\<close>, the thickness
  model \<open>BET\<close>, and no thickness model at all.\<close>

theorem meso_branch_and_thickness_checks_witness:
  "mesopore_size_distribution lab iso_full (PyStr ''BJH'') (PyStr ''cylinder'') False Map.empty
     = ([], Inl err_no_branch)
 \<and> mesopore_size_distribution lab iso_full (PyStr ''BJH'') (PyStr ''cylinder'') False
       [''branch'' \<mapsto> PyStr ''both''] = ([], Inl (err_branch (PyStr ''both'')))
 \<and> mesopore_size_distribution lab iso_full (PyStr ''BJH'') (PyStr ''cylinder'') False
       [''branch'' \<mapsto> PyStr ''adsorption'', ''thickness_model'' \<mapsto> PyStr ''BET'']
     = ([], Inl (err_sub_model (PyStr ''BET'') [''Halsey'', ''Harkins/Jura'']))
 \<and> mesopore_size_distribution lab iso_full (PyStr ''BJH'') (PyStr ''cylinder'') False
       [''branch'' \<mapsto> PyStr ''adsorption'']
     = mesopore_size_distribution lab iso_full (PyStr ''BJH'') (PyStr ''cylinder'') False
       [''branch'' \<mapsto> PyStr ''adsorption'', ''thickness_model'' \<mapsto> PyStr ''Harkins/Jura'']
 \<and> meso_engine_thickness
       (fst (mesopore_size_distribution lab iso_full (PyStr ''BJH'') (PyStr ''cylinder'') False
          [''branch'' \<mapsto> PyStr ''adsorption'']))
     = [thickness_harkins_jura]"
proof -
  have p: "py_in (PyStr ''BJH'') MESO_PSD_MODELS"
    and g: "py_in (PyStr ''cylinder'') PORE_GEOMETRIES"
    by (simp_all add: registry_defs)
  note t = meso_branch_and_thickness_checks [OF iso_full_fields(1,2) p g, of _ lab False]
  have 1: "mesopore_size_distribution lab iso_full (PyStr ''BJH'') (PyStr ''cylinder'') False
      Map.empty = ([], Inl err_no_branch)"
    using t [of Map.empty] by simp
  have 2: "mesopore_size_distribution lab iso_full (PyStr ''BJH'') (PyStr ''cylinder'') False
       [''branch'' \<mapsto> PyStr ''both''] = ([], Inl (err_branch (PyStr ''both'')))"
    using t [of "[''branch'' \<mapsto> PyStr ''both'']"] by simp
  have 3: "mesopore_size_distribution lab iso_full (PyStr ''BJH'') (PyStr ''cylinder'') False
       [''branch'' \<mapsto> PyStr ''adsorption'', ''thickness_model'' \<mapsto> PyStr ''BET'']
     = ([], Inl (err_sub_model (PyStr ''BET'') [''Halsey'', ''Harkins/Jura'']))"
    using t [of "[''branch'' \<mapsto> PyStr ''adsorption'', ''thickness_model'' \<mapsto> PyStr ''BET'']"]
    by (simp add: lab_fields)
  have 4: "mesopore_size_distribution lab iso_full (PyStr ''BJH'') (PyStr ''cylinder'') False
       [''branch'' \<mapsto> PyStr ''adsorption'']
     = mesopore_size_distribution lab iso_full (PyStr ''BJH'') (PyStr ''cylinder'') False
       [''branch'' \<mapsto> PyStr ''adsorption'', ''thickness_model'' \<mapsto> PyStr ''Harkins/Jura'']"
    using t [of "[''branch'' \<mapsto> PyStr ''adsorption'']"] by simp
  have a: "Adsorbate_from_list lab (gas iso_full) = Inr nitrogen"
    by (simp add: lab_fields iso_full_fields)
  have 5: "meso_engine_thickness
       (fst (mesopore_size_distribution lab iso_full (PyStr ''BJH'') (PyStr ''cylinder'') False
          [''branch'' \<mapsto> PyStr ''adsorption'']))
     = [thickness_harkins_jura]"
  proof -
    have k: "''thickness_model'' \<notin> dom [''branch'' \<mapsto> PyStr ''adsorption'']"
      and r: "''Harkins/Jura'' \<in> set (THICKNESS_MODELS lab)"
      and n: "PyStr ''BJH'' \<noteq> PyStr ''HK''"
      and b: "[''branch'' \<mapsto> PyStr ''adsorption''] ''branch'' = Some (PyStr ''adsorption'')"
      and v: "py_in (PyStr ''adsorption'') [''adsorption'', ''desorption'']"
      by (simp_all add: lab_fields)
    show ?thesis
      by (rule t [of "[''branch'' \<mapsto> PyStr ''adsorption'']", THEN conjunct2, THEN conjunct2,
            THEN conjunct2, THEN conjunct2, rule_format,
            OF k r n b v a nitrogen_fields(1-3)
              meso_read_data_adsorption [OF iso_full_fields(5,6)] lab_fields(4)])
  qed
  show ?thesis
    using 1 2 3 4 5 by blast
qed

text \<open>A registered thickness model entry is the one the engine receives: with the
  entry \<open>Halsey\<close> it is handed the Halsey thickness function, not the default.\<close>

lemma meso_halsey_override_reaches_engine:
  "meso_engine_thickness
     (fst (mesopore_size_distribution lab iso_full (PyStr ''DH'') (PyStr ''slit'') False
        [''branch'' \<mapsto> PyStr ''desorption'', ''thickness_model'' \<mapsto> PyStr ''Halsey'']))
     = [thickness_halsey]
 \<and> thickness_halsey \<noteq> thickness_harkins_jura"
  by (simp add: mesopore_size_distribution_def run_defs piece_defs example_defs registry_defs)

subsection \<open>The micropore function\<close>

text \<open>
  Claim C7. Let the checks of \<open>micropore_size_distribution\<close> on basis, model name and
  geometry pass, and the adsorbate lookups and the three reads of the isotherm return.
  \<^item> The \<open>branch\<close> entry of the configuration has no effect on the run.
  \<^item> An \<open>adsorbent_model\<close> entry that is not in the adsorbent registry raises the
    unregistered-model exception, with an empty trace.
  \<^item> Without an \<open>adsorbent_model\<close> entry the run is that with the entry
    \<open>Carbon(HK)\<close>, whose property table is \<open>PROPERTIES_CARBON\<close>.
  \<^item> When the adsorbent model is registered and has a property table, the reads of the
    isotherm are the adsorption loading (in mmol), the adsorption pressure and the
    loading at relative pressure 0.9, and the one engine call is that of the
    Horvath-Kawazoe engine, with those two arrays, that loading as the limit, and the
    table of the adsorbent model.
  \<^item> The table follows the entry: without an entry, and with the registered entry
    \<open>Carbon(HK)\<close>, the engine receives \<open>PROPERTIES_CARBON\<close>; with the registered
    entry \<open>OxideIon(SF)\<close> it receives \<open>PROPERTIES_OXIDE_ION\<close>, a different table.
  The function has a table for these two names; the registry itself is a parameter.
\<close>

theorem micro_adsorption_data_and_adsorbent:
  assumes "mode_adsorbent isotherm = ''mass''" and "mode_pressure isotherm = ''relative''"
    and "py_in model MICRO_PSD_MODELS" and "py_in geometry PORE_GEOMETRIES"
    and "Adsorbate_from_list imp (gas isotherm) = Inr a"
    and "get_prop a ''molecular_diameter'' = Inr d"
    and "get_prop a ''polarizability'' = Inr p"
    and "get_prop a ''magnetic_susceptibility'' = Inr m"
    and "get_prop a ''surface_density'' = Inr s"
    and "loading_ads isotherm ''mmol'' = Inr loading"
    and "pressure_ads isotherm = Inr pressure"
    and "loading_at isotherm (9 / 10) = Inr maximum_adsorbed"
  shows
   "(\<forall>x. micropore_size_distribution imp isotherm model geometry verbose
            (params(''branch'' := x))
        = micropore_size_distribution imp isotherm model geometry verbose params)
  \<and> (\<forall>t. params ''adsorbent_model'' = Some t \<longrightarrow> \<not> py_in t (ADSORBENT_MODELS imp) \<longrightarrow>
        micropore_size_distribution imp isotherm model geometry verbose params
          = ([], Inl (err_sub_model t (ADSORBENT_MODELS imp))))
  \<and> (''adsorbent_model'' \<notin> dom params \<longrightarrow>
        micropore_size_distribution imp isotherm model geometry verbose params
          = micropore_size_distribution imp isotherm model geometry verbose
              (params(''adsorbent_model'' \<mapsto> PyStr ''Carbon(HK)'')))
  \<and> (\<forall>am ads.
        sub_model_checks params ''adsorbent_model'' ''Carbon(HK)'' (ADSORBENT_MODELS imp)
          = Inr am \<longrightarrow>
        select_adsorbent_properties am = Some ads \<longrightarrow>
        filter is_isotherm_read
          (fst (micropore_size_distribution imp isotherm model geometry verbose params))
          = [Call_loading_ads ''mmol'', Call_pressure_ads, Call_loading_at (9 / 10)]
      \<and> filter is_engine_call
          (fst (micropore_size_distribution imp isotherm model geometry verbose params))
          = [Call_psd_horvath_kawazoe loading pressure (t_exp isotherm) geometry
               maximum_adsorbed
               \<lparr>molecular_diameter = d, polarizability = p, magnetic_susceptibility = m,
                 surface_density = s\<rparr> ads])
  \<and> select_adsorbent_properties (PyStr ''Carbon(HK)'') = Some PROPERTIES_CARBON
  \<and> select_adsorbent_properties (PyStr ''OxideIon(SF)'') = Some PROPERTIES_OXIDE_ION
  \<and> PROPERTIES_OXIDE_ION \<noteq> PROPERTIES_CARBON
  \<and> (''adsorbent_model'' \<notin> dom params
        \<or> params ''adsorbent_model'' = Some (PyStr ''Carbon(HK)'') \<longrightarrow>
      ''Carbon(HK)'' \<in> set (ADSORBENT_MODELS imp) \<longrightarrow>
        filter is_engine_call
          (fst (micropore_size_distribution imp isotherm model geometry verbose params))
          = [Call_psd_horvath_kawazoe loading pressure (t_exp isotherm) geometry
               maximum_adsorbed
               \<lparr>molecular_diameter = d, polarizability = p, magnetic_susceptibility = m,
                 surface_density = s\<rparr> PROPERTIES_CARBON])
  \<and> (params ''adsorbent_model'' = Some (PyStr ''OxideIon(SF)'') \<longrightarrow>
      ''OxideIon(SF)'' \<in> set (ADSORBENT_MODELS imp) \<longrightarrow>
        filter is_engine_call
          (fst (micropore_size_distribution imp isotherm model geometry verbose params))
          = [Call_psd_horvath_kawazoe loading pressure (t_exp isotherm) geometry
               maximum_adsorbed
               \<lparr>molecular_diameter = d, polarizability = p, magnetic_susceptibility = m,
                 surface_density = s\<rparr> PROPERTIES_OXIDE_ION])"
proof -
  have c: "common_parameter_checks isotherm model MICRO_PSD_MODELS geometry = None"
    using assms(1-4) by (rule common_checks_pass)
  have hk: "model = PyStr ''HK''"
    using assms(3) by (simp add: py_in_micro)
  have nobranch: "micropore_size_distribution imp isotherm model geometry verbose
            (params(''branch'' := x))
        = micropore_size_distribution imp isotherm model geometry verbose params" for x
    unfolding micropore_size_distribution_def
      sub_model_checks_other_key [of "''branch''" "''adsorbent_model''", simplified]
    by (rule refl)
  have unregistered: "micropore_size_distribution imp isotherm model geometry verbose params
          = ([], Inl (err_sub_model t (ADSORBENT_MODELS imp)))"
    if "params ''adsorbent_model'' = Some t" "\<not> py_in t (ADSORBENT_MODELS imp)" for t
    using that c
    by (simp add: micropore_size_distribution_def sub_model_checks_def py_get_def raise_def
        domIff)
  have dflt: "micropore_size_distribution imp isotherm model geometry verbose params
          = micropore_size_distribution imp isotherm model geometry verbose
              (params(''adsorbent_model'' \<mapsto> PyStr ''Carbon(HK)''))"
    if "''adsorbent_model'' \<notin> dom params"
    unfolding micropore_size_distribution_def
      sub_model_default [OF that, of "''Carbon(HK)''" "ADSORBENT_MODELS imp"]
    by (rule refl)
  have reads: "filter is_isotherm_read
          (fst (micropore_size_distribution imp isotherm model geometry verbose params))
          = [Call_loading_ads ''mmol'', Call_pressure_ads, Call_loading_at (9 / 10)]
      \<and> filter is_engine_call
          (fst (micropore_size_distribution imp isotherm model geometry verbose params))
          = [Call_psd_horvath_kawazoe loading pressure (t_exp isotherm) geometry
               maximum_adsorbed
               \<lparr>molecular_diameter = d, polarizability = p, magnetic_susceptibility = m,
                 surface_density = s\<rparr> ads]"
    if "sub_model_checks params ''adsorbent_model'' ''Carbon(HK)'' (ADSORBENT_MODELS imp)
          = Inr am" "select_adsorbent_properties am = Some ads" for am ads
    unfolding micro_after_checks [OF c that(1) assms(5-12)]
    using that(2) hk
    by (auto simp: fst_seq snd_seq micro_engine_call fst_result_and_plot
        split: sum.splits option.splits)
  have carbon: "select_adsorbent_properties (PyStr ''Carbon(HK)'') = Some PROPERTIES_CARBON"
    and oxide: "select_adsorbent_properties (PyStr ''OxideIon(SF)'')
                  = Some PROPERTIES_OXIDE_ION"
    and differ: "PROPERTIES_OXIDE_ION \<noteq> PROPERTIES_CARBON"
    by (simp_all add: select_adsorbent_properties_def)
  have am_default: "sub_model_checks params ''adsorbent_model'' ''Carbon(HK)''
      (ADSORBENT_MODELS imp) = Inr (PyStr ''Carbon(HK)'')"
    if "''adsorbent_model'' \<notin> dom params
        \<or> params ''adsorbent_model'' = Some (PyStr ''Carbon(HK)'')"
      "''Carbon(HK)'' \<in> set (ADSORBENT_MODELS imp)"
    using that by (auto simp: sub_model_checks_def py_get_def domIff)
  have am_oxide: "sub_model_checks params ''adsorbent_model'' ''Carbon(HK)''
      (ADSORBENT_MODELS imp) = Inr (PyStr ''OxideIon(SF)'')"
    if "params ''adsorbent_model'' = Some (PyStr ''OxideIon(SF)'')"
      "''OxideIon(SF)'' \<in> set (ADSORBENT_MODELS imp)"
    using that by (auto simp: sub_model_checks_def py_get_def domIff)
  have with_carbon: "filter is_engine_call
          (fst (micropore_size_distribution imp isotherm model geometry verbose params))
          = [Call_psd_horvath_kawazoe loading pressure (t_exp isotherm) geometry
               maximum_adsorbed
               \<lparr>molecular_diameter = d, polarizability = p, magnetic_susceptibility = m,
                 surface_density = s\<rparr> PROPERTIES_CARBON]"
    if "''adsorbent_model'' \<notin> dom params
        \<or> params ''adsorbent_model'' = Some (PyStr ''Carbon(HK)'')"
      "''Carbon(HK)'' \<in> set (ADSORBENT_MODELS imp)"
    using reads [OF am_default [OF that] carbon] by (rule conjunct2)
  have with_oxide: "filter is_engine_call
          (fst (micropore_size_distribution imp isotherm model geometry verbose params))
          = [Call_psd_horvath_kawazoe loading pressure (t_exp isotherm) geometry
               maximum_adsorbed
               \<lparr>molecular_diameter = d, polarizability = p, magnetic_susceptibility = m,
                 surface_density = s\<rparr> PROPERTIES_OXIDE_ION]"
    if "params ''adsorbent_model'' = Some (PyStr ''OxideIon(SF)'')"
      "''OxideIon(SF)'' \<in> set (ADSORBENT_MODELS imp)"
    using reads [OF am_oxide [OF that] oxide] by (rule conjunct2)
  show ?thesis
    using nobranch unregistered dflt reads carbon oxide differ with_carbon with_oxide
    by blast
qed

text \<open>The theorem on the example isotherm: a \<open>branch\<close> entry changes nothing, the
  adsorbent model \<open>Zeolite\<close> is refused, without an entry the engine is called with
  the adsorption arrays, the loading at 0.9 and the carbon table, and with the entry
  \<open>OxideIon(SF)\<close> it is called with the oxide ion table.\<close>

theorem micro_adsorption_data_and_adsorbent_witness:
  "micropore_size_distribution lab iso_full (PyStr ''HK'') (PyStr ''cylinder'') False
       [''branch'' \<mapsto> PyStr ''desorption'']
     = micropore_size_distribution lab iso_full (PyStr ''HK'') (PyStr ''cylinder'') False
         Map.empty
 \<and> micropore_size_distribution lab iso_full (PyStr ''HK'') (PyStr ''cylinder'') False
       [''adsorbent_model'' \<mapsto> PyStr ''Zeolite'']
     = ([], Inl (err_sub_model (PyStr ''Zeolite'') [''Carbon(HK)'', ''OxideIon(SF)'']))
 \<and> micropore_size_distribution lab iso_full (PyStr ''HK'') (PyStr ''cylinder'') False
       Map.empty
     = micropore_size_distribution lab iso_full (PyStr ''HK'') (PyStr ''cylinder'') False
         [''adsorbent_model'' \<mapsto> PyStr ''Carbon(HK)'']
 \<and> filter is_isotherm_read
       (fst (micropore_size_distribution lab iso_full (PyStr ''HK'') (PyStr ''cylinder'')
          False Map.empty))
     = [Call_loading_ads ''mmol'', Call_pressure_ads, Call_loading_at (9 / 10)]
 \<and> filter is_engine_call
       (fst (micropore_size_distribution lab iso_full (PyStr ''HK'') (PyStr ''cylinder'')
          False Map.empty))
     = [Call_psd_horvath_kawazoe (Some [1, 2, 3, 4, 5, 6])
          (Some [1 / 10, 3 / 10, 5 / 10, 7 / 10, 9 / 10, 99 / 100]) 77 (PyStr ''cylinder'') 5
          \<lparr>molecular_diameter = 1, polarizability = 1, magnetic_susceptibility = 1,
            surface_density = 1\<rparr> PROPERTIES_CARBON]
 \<and> filter is_engine_call
       (fst (micropore_size_distribution lab iso_full (PyStr ''HK'') (PyStr ''cylinder'')
          False [''adsorbent_model'' \<mapsto> PyStr ''OxideIon(SF)'']))
     = [Call_psd_horvath_kawazoe (Some [1, 2, 3, 4, 5, 6])
          (Some [1 / 10, 3 / 10, 5 / 10, 7 / 10, 9 / 10, 99 / 100]) 77 (PyStr ''cylinder'') 5
          \<lparr>molecular_diameter = 1, polarizability = 1, magnetic_susceptibility = 1,
            surface_density = 1\<rparr> PROPERTIES_OXIDE_ION]
 \<and> filter is_engine_call
       (fst (micropore_size_distribution lab iso_full (PyStr ''HK'') (PyStr ''cylinder'')
          False [''adsorbent_model'' \<mapsto> PyStr ''Carbon(HK)'']))
     = [Call_psd_horvath_kawazoe (Some [1, 2, 3, 4, 5, 6])
          (Some [1 / 10, 3 / 10, 5 / 10, 7 / 10, 9 / 10, 99 / 100]) 77 (PyStr ''cylinder'') 5
          \<lparr>molecular_diameter = 1, polarizability = 1, magnetic_susceptibility = 1,
            surface_density = 1\<rparr> PROPERTIES_CARBON]"
proof -
  have p: "py_in (PyStr ''HK'') MICRO_PSD_MODELS"
    and g: "py_in (PyStr ''cylinder'') PORE_GEOMETRIES"
    by (simp_all add: registry_defs)
  have a: "Adsorbate_from_list lab (gas iso_full) = Inr nitrogen"
    by (simp add: lab_fields iso_full_fields)
  have am: "sub_model_checks Map.empty ''adsorbent_model'' ''Carbon(HK)''
      (ADSORBENT_MODELS lab) = Inr (PyStr ''Carbon(HK)'')"
    by (simp add: sub_model_checks_def lab_fields)
  have carbon: "select_adsorbent_properties (PyStr ''Carbon(HK)'') = Some PROPERTIES_CARBON"
    by (simp add: select_adsorbent_properties_def)
  have z: "[''adsorbent_model'' \<mapsto> PyStr ''Zeolite''] ''adsorbent_model''
             = Some (PyStr ''Zeolite'')"
    and nz: "\<not> py_in (PyStr ''Zeolite'') (ADSORBENT_MODELS lab)"
    and absent: "''adsorbent_model'' \<notin> dom (Map.empty :: string \<rightharpoonup> pyval)"
    by (simp_all add: lab_fields)
  note t = micro_adsorption_data_and_adsorbent [OF iso_full_fields(1,2) p g a
      nitrogen_fields(4) nitrogen_fields(4) nitrogen_fields(4) nitrogen_fields(4)
      iso_full_fields(5,6,9), of False]
  have 1: "micropore_size_distribution lab iso_full (PyStr ''HK'') (PyStr ''cylinder'') False
       [''branch'' \<mapsto> PyStr ''desorption'']
     = micropore_size_distribution lab iso_full (PyStr ''HK'') (PyStr ''cylinder'') False
         Map.empty"
    using t [of Map.empty] by blast
  have 2: "micropore_size_distribution lab iso_full (PyStr ''HK'') (PyStr ''cylinder'') False
       [''adsorbent_model'' \<mapsto> PyStr ''Zeolite'']
     = ([], Inl (err_sub_model (PyStr ''Zeolite'') [''Carbon(HK)'', ''OxideIon(SF)'']))"
    using t [of "[''adsorbent_model'' \<mapsto> PyStr ''Zeolite'']"] z nz
    unfolding lab_fields(2) by blast
  have 3: "micropore_size_distribution lab iso_full (PyStr ''HK'') (PyStr ''cylinder'') False
       Map.empty
     = micropore_size_distribution lab iso_full (PyStr ''HK'') (PyStr ''cylinder'') False
         [''adsorbent_model'' \<mapsto> PyStr ''Carbon(HK)'']"
    using t [of Map.empty] absent by blast
  have 4: "filter is_isotherm_read
       (fst (micropore_size_distribution lab iso_full (PyStr ''HK'') (PyStr ''cylinder'')
          False Map.empty))
     = [Call_loading_ads ''mmol'', Call_pressure_ads, Call_loading_at (9 / 10)]
   \<and> filter is_engine_call
       (fst (micropore_size_distribution lab iso_full (PyStr ''HK'') (PyStr ''cylinder'')
          False Map.empty))
     = [Call_psd_horvath_kawazoe (Some [1, 2, 3, 4, 5, 6])
          (Some [1 / 10, 3 / 10, 5 / 10, 7 / 10, 9 / 10, 99 / 100]) 77 (PyStr ''cylinder'') 5
          \<lparr>molecular_diameter = 1, polarizability = 1, magnetic_susceptibility = 1,
            surface_density = 1\<rparr> PROPERTIES_CARBON]"
    using t [of Map.empty] am carbon unfolding iso_full_fields(4) by blast
  have ox: "[''adsorbent_model'' \<mapsto> PyStr ''OxideIon(SF)''] ''adsorbent_model''
              = Some (PyStr ''OxideIon(SF)'')"
    and oxr: "''OxideIon(SF)'' \<in> set (ADSORBENT_MODELS lab)"
    and ca: "[''adsorbent_model'' \<mapsto> PyStr ''Carbon(HK)''] ''adsorbent_model''
              = Some (PyStr ''Carbon(HK)'')"
    and car: "''Carbon(HK)'' \<in> set (ADSORBENT_MODELS lab)"
    by (simp_all add: lab_fields)
  have 5: "filter is_engine_call
       (fst (micropore_size_distribution lab iso_full (PyStr ''HK'') (PyStr ''cylinder'')
          False [''adsorbent_model'' \<mapsto> PyStr ''OxideIon(SF)'']))
     = [Call_psd_horvath_kawazoe (Some [1, 2, 3, 4, 5, 6])
          (Some [1 / 10, 3 / 10, 5 / 10, 7 / 10, 9 / 10, 99 / 100]) 77 (PyStr ''cylinder'') 5
          \<lparr>molecular_diameter = 1, polarizability = 1, magnetic_susceptibility = 1,
            surface_density = 1\<rparr> PROPERTIES_OXIDE_ION]"
    using t [of "[''adsorbent_model'' \<mapsto> PyStr ''OxideIon(SF)'']"] ox oxr
    unfolding iso_full_fields(4) by blast
  have 6: "filter is_engine_call
       (fst (micropore_size_distribution lab iso_full (PyStr ''HK'') (PyStr ''cylinder'')
          False [''adsorbent_model'' \<mapsto> PyStr ''Carbon(HK)'']))
     = [Call_psd_horvath_kawazoe (Some [1, 2, 3, 4, 5, 6])
          (Some [1 / 10, 3 / 10, 5 / 10, 7 / 10, 9 / 10, 99 / 100]) 77 (PyStr ''cylinder'') 5
          \<lparr>molecular_diameter = 1, polarizability = 1, magnetic_susceptibility = 1,
            surface_density = 1\<rparr> PROPERTIES_CARBON]"
    using t [of "[''adsorbent_model'' \<mapsto> PyStr ''Carbon(HK)'']"] ca car
    unfolding iso_full_fields(4) by blast
  show ?thesis
    using 1 2 3 4 5 6 by blast
qed

subsection \<open>The verbose flag and the plot\<close>




subsection \<open>The micropore function on an isotherm without adsorption data\<close>

lemma micro_never_branch_data:
  "snd (micropore_size_distribution imp isotherm model geometry verbose params)
     \<noteq> Inl err_branch_data"
proof (cases "common_parameter_checks isotherm model MICRO_PSD_MODELS geometry")
  case (Some e)
  then show ?thesis
    using common_checks_not_branch_data [OF Some]
    by (simp add: micropore_size_distribution_def raise_def)
next
  case None
  show ?thesis
  proof (cases "sub_model_checks params ''adsorbent_model'' ''Carbon(HK)''
                  (ADSORBENT_MODELS imp)")
    case (Inl e)
    then show ?thesis
      using None sub_model_not_branch_data [OF Inl]
      by (simp add: micropore_size_distribution_def raise_def)
  next
    case (Inr am)
    show ?thesis
      unfolding micropore_size_distribution_def None Inr err_branch_data_def
      by (auto simp: Let_def
          dest!: seq_Inl call_Exception micro_call_engine_Exception result_and_plot_Exception)
  qed
qed

text \<open>
  Claim C9. \<open>micropore_size_distribution\<close> never raises the missing-data exception of
  the mesopore function, whatever its arguments. When the checks pass, the lookups
  return, and the two adsorption accessors return \<^verbatim>\<open>None\<close>, the one engine call of the
  run is that of the Horvath-Kawazoe engine with \<^verbatim>\<open>None\<close> for both arrays and the
  loading queried at 0.9 as the limit; an exception of the engine on these arguments
  is what the caller sees.
\<close>

theorem micro_passes_missing_data_on:
  "snd (micropore_size_distribution imp isotherm model geometry verbose params)
     \<noteq> Inl err_branch_data
 \<and> (mode_adsorbent isotherm = ''mass'' \<longrightarrow> mode_pressure isotherm = ''relative'' \<longrightarrow>
    py_in model MICRO_PSD_MODELS \<longrightarrow> py_in geometry PORE_GEOMETRIES \<longrightarrow>
    sub_model_checks params ''adsorbent_model'' ''Carbon(HK)'' (ADSORBENT_MODELS imp)
      = Inr am \<longrightarrow>
    select_adsorbent_properties am = Some ads \<longrightarrow>
    Adsorbate_from_list imp (gas isotherm) = Inr a \<longrightarrow>
    get_prop a ''molecular_diameter'' = Inr d \<longrightarrow>
    get_prop a ''polarizability'' = Inr p \<longrightarrow>
    get_prop a ''magnetic_susceptibility'' = Inr m \<longrightarrow>
    get_prop a ''surface_density'' = Inr s \<longrightarrow>
    loading_ads isotherm ''mmol'' = Inr None \<longrightarrow>
    pressure_ads isotherm = Inr None \<longrightarrow>
    loading_at isotherm (9 / 10) = Inr maximum_adsorbed \<longrightarrow>
      filter is_engine_call
        (fst (micropore_size_distribution imp isotherm model geometry verbose params))
        = [Call_psd_horvath_kawazoe None None (t_exp isotherm) geometry maximum_adsorbed
             \<lparr>molecular_diameter = d, polarizability = p, magnetic_susceptibility = m,
               surface_density = s\<rparr> ads]
    \<and> (\<forall>msg. psd_horvath_kawazoe imp None None (t_exp isotherm) geometry maximum_adsorbed
             \<lparr>molecular_diameter = d, polarizability = p, magnetic_susceptibility = m,
               surface_density = s\<rparr> ads = Inl msg \<longrightarrow>
          snd (micropore_size_distribution imp isotherm model geometry verbose params)
            = Inl (Propagated msg)))"
proof (intro conjI impI)
  show "snd (micropore_size_distribution imp isotherm model geometry verbose params)
     \<noteq> Inl err_branch_data"
    by (rule micro_never_branch_data)
next
  assume h: "mode_adsorbent isotherm = ''mass''" "mode_pressure isotherm = ''relative''"
    "py_in model MICRO_PSD_MODELS" "py_in geometry PORE_GEOMETRIES"
    and am: "sub_model_checks params ''adsorbent_model'' ''Carbon(HK)''
      (ADSORBENT_MODELS imp) = Inr am"
    and ads: "select_adsorbent_properties am = Some ads"
    and rest: "Adsorbate_from_list imp (gas isotherm) = Inr a"
    "get_prop a ''molecular_diameter'' = Inr d"
    "get_prop a ''polarizability'' = Inr p"
    "get_prop a ''magnetic_susceptibility'' = Inr m"
    "get_prop a ''surface_density'' = Inr s"
    "loading_ads isotherm ''mmol'' = Inr None"
    "pressure_ads isotherm = Inr None"
    "loading_at isotherm (9 / 10) = Inr maximum_adsorbed"
  have c: "common_parameter_checks isotherm model MICRO_PSD_MODELS geometry = None"
    using h by (rule common_checks_pass)
  have hk: "model = PyStr ''HK''"
    using h(3) by (simp add: py_in_micro)
  note run = micro_after_checks [OF c am rest]
  show "filter is_engine_call
        (fst (micropore_size_distribution imp isotherm model geometry verbose params))
        = [Call_psd_horvath_kawazoe None None (t_exp isotherm) geometry maximum_adsorbed
             \<lparr>molecular_diameter = d, polarizability = p, magnetic_susceptibility = m,
               surface_density = s\<rparr> ads]"
    unfolding run using ads hk
    by (auto simp: fst_seq snd_seq micro_engine_call fst_result_and_plot
        split: sum.splits option.splits)
  show "\<forall>msg. psd_horvath_kawazoe imp None None (t_exp isotherm) geometry maximum_adsorbed
             \<lparr>molecular_diameter = d, polarizability = p, magnetic_susceptibility = m,
               surface_density = s\<rparr> ads = Inl msg \<longrightarrow>
          snd (micropore_size_distribution imp isotherm model geometry verbose params)
            = Inl (Propagated msg)"
    unfolding run using ads hk
    by (simp add: snd_seq micro_call_engine_def run_defs)
qed

text \<open>The theorem on the isotherm without data: the engine is called with \<^verbatim>\<open>None\<close>
  twice, and its exception reaches the caller.\<close>

theorem micro_passes_missing_data_on_witness:
  "snd (micropore_size_distribution lab iso_empty (PyStr ''HK'') (PyStr ''cylinder'') False
          Map.empty) \<noteq> Inl err_branch_data
 \<and> filter is_engine_call
      (fst (micropore_size_distribution lab iso_empty (PyStr ''HK'') (PyStr ''cylinder'')
         False Map.empty))
     = [Call_psd_horvath_kawazoe None None 77 (PyStr ''cylinder'') 5
          \<lparr>molecular_diameter = 1, polarizability = 1, magnetic_susceptibility = 1,
            surface_density = 1\<rparr> PROPERTIES_CARBON]
 \<and> snd (micropore_size_distribution lab iso_empty (PyStr ''HK'') (PyStr ''cylinder'') False
          Map.empty) = Inl (Propagated ''engine: array expected'')"
proof -
  have p: "py_in (PyStr ''HK'') MICRO_PSD_MODELS"
    and g: "py_in (PyStr ''cylinder'') PORE_GEOMETRIES"
    by (simp_all add: registry_defs)
  have am: "sub_model_checks Map.empty ''adsorbent_model'' ''Carbon(HK)''
      (ADSORBENT_MODELS lab) = Inr (PyStr ''Carbon(HK)'')"
    by (simp add: sub_model_checks_def lab_fields)
  have ads: "select_adsorbent_properties (PyStr ''Carbon(HK)'') = Some PROPERTIES_CARBON"
    by (simp add: select_adsorbent_properties_def)
  have a: "Adsorbate_from_list lab (gas iso_empty) = Inr nitrogen"
    by (simp add: lab_fields iso_empty_fields)
  note t = micro_passes_missing_data_on [of lab iso_empty "PyStr ''HK''" "PyStr ''cylinder''"
        False Map.empty "PyStr ''Carbon(HK)''" PROPERTIES_CARBON nitrogen 1 1 1 1 5]
  have 1: "snd (micropore_size_distribution lab iso_empty (PyStr ''HK'') (PyStr ''cylinder'')
          False Map.empty) \<noteq> Inl err_branch_data"
    using t by (rule conjunct1)
  note u = t [THEN conjunct2, rule_format, OF iso_empty_fields(1,2) p g am ads a
      nitrogen_fields(4) nitrogen_fields(4) nitrogen_fields(4) nitrogen_fields(4)
      iso_empty_fields(5,6,9), unfolded iso_empty_fields(4)]
  show ?thesis
    using 1 u lab_fields(6) by blast
qed

subsection \<open>The thickness model entry\<close>

text \<open>
  Claim C10. Let every check of \<open>mesopore_size_distribution\<close> before the thickness
  model pass. A \<open>thickness_model\<close> entry with the value \<^verbatim>\<open>None\<close> raises the
  unregistered-model exception (for the name \<open>None\<close>), whatever the registry holds, and so
  does an entry with a name that is not in the registry; in both cases the trace is
  empty. The default \<open>Harkins/Jura\<close> is what the check sees only when the configuration
  has no such entry.
\<close>

theorem thickness_default_needs_absent_key:
  assumes "mode_adsorbent isotherm = ''mass''" and "mode_pressure isotherm = ''relative''"
    and "py_in model MESO_PSD_MODELS" and "py_in geometry PORE_GEOMETRIES"
    and "params ''branch'' = Some b" and "py_in b [''adsorption'', ''desorption'']"
  shows
   "(params ''thickness_model'' = Some PyNone \<longrightarrow>
       mesopore_size_distribution imp isotherm model geometry verbose params
         = ([], Inl (err_sub_model PyNone (THICKNESS_MODELS imp))))
  \<and> (\<forall>name. params ''thickness_model'' = Some (PyStr name) \<longrightarrow>
       name \<notin> set (THICKNESS_MODELS imp) \<longrightarrow>
       mesopore_size_distribution imp isotherm model geometry verbose params
         = ([], Inl (err_sub_model (PyStr name) (THICKNESS_MODELS imp))))
  \<and> (params ''thickness_model'' = None \<longrightarrow>
       sub_model_checks params ''thickness_model'' ''Harkins/Jura'' (THICKNESS_MODELS imp)
         = (if ''Harkins/Jura'' \<in> set (THICKNESS_MODELS imp)
            then Inr (PyStr ''Harkins/Jura'')
            else Inl (err_sub_model (PyStr ''Harkins/Jura'') (THICKNESS_MODELS imp))))"
  using assms(5,6) common_checks_pass [OF assms(1-4)] branch_checks_pass [of params b]
  by (auto simp: mesopore_size_distribution_def sub_model_checks_def py_get_def raise_def
      domIff)

text \<open>The theorem with the registry \<open>Halsey\<close>, \<open>Harkins/Jura\<close>: the entries \<^verbatim>\<open>None\<close>
  and \<open>BET\<close> are refused although the default is registered.\<close>

theorem thickness_default_needs_absent_key_witness:
  "mesopore_size_distribution lab iso_full (PyStr ''DH'') (PyStr ''slit'') True
       [''branch'' \<mapsto> PyStr ''desorption'', ''thickness_model'' \<mapsto> PyNone]
     = ([], Inl (Exception [''Model None not an option for pore size distribution.'',
          ''Available models are ['Halsey', 'Harkins/Jura']'']))
 \<and> mesopore_size_distribution lab iso_full (PyStr ''DH'') (PyStr ''slit'') True
       [''branch'' \<mapsto> PyStr ''desorption'', ''thickness_model'' \<mapsto> PyStr ''BET'']
     = ([], Inl (Exception [''Model BET not an option for pore size distribution.'',
          ''Available models are ['Halsey', 'Harkins/Jura']'']))
 \<and> sub_model_checks [''branch'' \<mapsto> PyStr ''desorption''] ''thickness_model''
       ''Harkins/Jura'' (THICKNESS_MODELS lab) = Inr (PyStr ''Harkins/Jura'')"
proof -
  have p: "py_in (PyStr ''DH'') MESO_PSD_MODELS"
    and g: "py_in (PyStr ''slit'') PORE_GEOMETRIES"
    and d: "py_in (PyStr ''desorption'') [''adsorption'', ''desorption'']"
    by (simp_all add: registry_defs)
  show ?thesis
    using
      thickness_default_needs_absent_key [OF iso_full_fields(1,2) p g _ d,
        of "[''branch'' \<mapsto> PyStr ''desorption'', ''thickness_model'' \<mapsto> PyNone]" lab True]
      thickness_default_needs_absent_key [OF iso_full_fields(1,2) p g _ d,
        of "[''branch'' \<mapsto> PyStr ''desorption'', ''thickness_model'' \<mapsto> PyStr ''BET'']"
          lab True]
      thickness_default_needs_absent_key [OF iso_full_fields(1,2) p g _ d,
        of "[''branch'' \<mapsto> PyStr ''desorption'']" lab True]
    by (simp add: lab_fields err_sub_model_def repr_defs)
qed

end
